theory Spec2Isabelle
  imports Complex_Main "HOL-Library.Word" "HOL-Library.Signed_Division"
begin

unbundle bit_operations_syntax

section \<open>MiniDexed MIDI device: data model\<close>

text \<open>
  The development embeds \<^verbatim>\<open>src/mididevice.cpp\<close>. Calls on the collaborators
  (synthesizer, tone generators, user interface, other MIDI devices, spin lock) are
  recorded, in program order, in a trace of events. A byte of the message buffer that
  decides what the handler does next is read through \<open>byte_at\<close>, checked against the
  length that came with the buffer: a read at or after \<open>nLength\<close> is the outcome
  \<open>OutOfBounds\<close> with the index read.
\<close>

type_synonym u8 = "8 word"

text \<open>
  The outcomes other than a return: a read of the buffer at an index past its end, a
  loop that never ends, and a failed \<open>assert\<close>.
\<close>

datatype error = OutOfBounds nat | NoReturn | AssertionFailed

definition bind_res :: "error + 'a \<Rightarrow> ('a \<Rightarrow> error + 'b) \<Rightarrow> error + 'b" where
  "bind_res r f = (case r of Inl e \<Rightarrow> Inl e | Inr x \<Rightarrow> f x)"

definition byte_at :: "u8 list \<Rightarrow> nat \<Rightarrow> error + u8" where
  \<comment> \<open>\<open>pMessage[i]\<close> for a buffer of \<open>nLength = length m\<close> bytes\<close>
  "byte_at m i = (if i < length m then Inr (m ! i) else Inl (OutOfBounds i))"

subsection \<open>The enumerations of the voice registers\<close>

text \<open>
  The case labels of the two NRPN switches are enumerators of the synthesizer
  library's header, in the order in which the source lists them.
\<close>

datatype DexedVoiceOPParameters =
    DEXED_OP_EG_R1 | DEXED_OP_EG_R2 | DEXED_OP_EG_R3 | DEXED_OP_EG_R4
  | DEXED_OP_EG_L1 | DEXED_OP_EG_L2 | DEXED_OP_EG_L3 | DEXED_OP_EG_L4
  | DEXED_OP_LEV_SCL_BRK_PT | DEXED_OP_SCL_LEFT_DEPTH | DEXED_OP_SCL_RGHT_DEPTH
  | DEXED_OP_SCL_LEFT_CURVE | DEXED_OP_SCL_RGHT_CURVE | DEXED_OP_OSC_RATE_SCALE
  | DEXED_OP_AMP_MOD_SENS | DEXED_OP_KEY_VEL_SENS | DEXED_OP_OUTPUT_LEV
  | DEXED_OP_OSC_MODE | DEXED_OP_FREQ_COARSE | DEXED_OP_FREQ_FINE | DEXED_OP_OSC_DETUNE

datatype DexedVoiceParameters =
    DEXED_PITCH_EG_R1 | DEXED_PITCH_EG_R2 | DEXED_PITCH_EG_R3 | DEXED_PITCH_EG_R4
  | DEXED_PITCH_EG_L1 | DEXED_PITCH_EG_L2 | DEXED_PITCH_EG_L3 | DEXED_PITCH_EG_L4
  | DEXED_ALGORITHM | DEXED_FEEDBACK | DEXED_OSC_KEY_SYNC | DEXED_LFO_SPEED
  | DEXED_LFO_DELAY | DEXED_LFO_PITCH_MOD_DEP | DEXED_LFO_AMP_MOD_DEP | DEXED_LFO_SYNC
  | DEXED_LFO_WAVE | DEXED_LFO_PITCH_MOD_SENS | DEXED_TRANSPOSE

subsection \<open>Calls on the collaborators\<close>

text \<open>Calls on \<^verbatim>\<open>m_pSynthesizer->m_pTG[nTG]\<close>.\<close>

datatype dexed_call =
    setOPRate u8 nat u8
  | setOPLevel u8 nat u8
  | setOPKeyboardLevelScalingBreakPoint u8 u8
  | setOPKeyboardLevelScalingDepthLeft u8 u8
  | setOPKeyboardLevelScalingDepthRight u8 u8
  | setOPKeyboardLevelScalingCurveLeft u8 u8
  | setOPKeyboardLevelScalingCurveRight u8 u8
  | setOPKeyboardRateScale u8 u8
  | setOPAmpModulationSensity u8 u8
  | setOPKeyboardVelocitySensity u8 u8
  | setOPOutputLevel u8 u8
  | setOPMode u8 u8
  | setOPFrequencyCoarse u8 u8
  | setOPFrequencyFine u8 u8
  | setOPDetune u8 u8
  | setPitchRate nat u8
  | setPitchLevel nat u8
  | setAlgorithm u8
  | setFeedback u8
  | setOscillatorSync u8
  | setLFOSpeed u8
  | setLFODelay u8
  | setLFOPitchModulationDepth u8
  | setLFOAmpModulationDepth u8
  | setLFOSync u8
  | setLFOWaveform u8
  | setLFOPitchModulationSensitivity u8
  | setTranspose u8

text \<open>
  The function-parameter setters of the SysEx codes 64 to 77, each called as
  \<^verbatim>\<open>m_pSynthesizer->set...(pMessage[5], nTG)\<close>.
\<close>

datatype function_setter =
    setMonoMode | setPitchbendRange | setPitchbendStep | setPortamentoMode
  | setPortamentoGlissando | setPortamentoTime | setModWheelRange | setModWheelTarget
  | setFootControllerRange | setFootControllerTarget | setBreathControllerRange
  | setBreathControllerTarget | setAftertouchRange | setAftertouchTarget

text \<open>Calls on \<^verbatim>\<open>m_pSynthesizer\<close>; the last argument is the tone generator.\<close>

datatype synth_call =
    setMasterVolume real
  | ProgramChangePerformance u8
  | keydown u8 u8 nat
  | keyup u8 nat
  | setAftertouch u8 nat
  | ControllersRefresh nat
  | setModWheel u8 nat
  | setFootController u8 nat
  | setBreathController u8 nat
  | SetVolume u8 nat
  | SetPan u8 nat
  | BankSelectMSB u8 nat
  | BankSelectLSB u8 nat
  | setSustain bool nat
  | SetResonance int nat
  | SetCutoff int nat
  | SetReverbSend int nat
  | SetMasterTune int nat
  | panic u8 nat
  | notesOff u8 nat
  | ProgramChange u8 nat
  | setPitchbend int nat
  | FunctionParameter function_setter u8 nat
  | loadVoiceParameters "u8 list" nat
  | setVoiceDataElement nat u8 nat

datatype event =
    Synth synth_call
  | TG nat dexed_call
  | UIMIDICmdHandler u8 u8 u8 u8
  | Send string "u8 list" "nat option"
  | Acquire
  | Release

subsection \<open>Configuration, collaborators' answers, device state\<close>

text \<open>
  What the source takes from code outside \<^verbatim>\<open>mididevice.cpp\<close> is a field of
  \<open>env\<close>: the constants \<open>ToneGenerators\<close>, \<open>OmniMode\<close> and \<open>Disabled\<close>, the numbering
  of the register enumerations (as the decoding of a case selector), the
  configuration getters, and the answers of the synthesizer's queries, which may
  depend on the calls made so far.
\<close>

record env =
  ToneGenerators :: nat
  OmniMode :: nat
  Disabled :: nat
  op_parameter :: "nat \<Rightarrow> DexedVoiceOPParameters option"
  voice_parameter :: "nat \<Rightarrow> DexedVoiceParameters option"
  GetMIDIDumpEnabled :: bool
  GetMIDIThruIn :: string
  GetMIDIThruOut :: string
  GetMIDIRXProgramChange :: bool
  GetIgnoreAllNotesOff :: bool
  GetPerformanceSelectChannel :: "event list \<Rightarrow> nat"
  checkSystemExclusive :: "event list \<Rightarrow> u8 list \<Rightarrow> u8 \<Rightarrow> 16 word"
  getSysExVoiceDump :: "event list \<Rightarrow> u8 \<Rightarrow> nat \<Rightarrow> u8"

text \<open>
  The device: its three arrays, its name, the keys of the static registry
  \<open>s_DeviceMap\<close> in the order in which the map is traversed, and the trace.
\<close>

record state =
  m_ChannelMap :: "u8 list"
  m_NRPNoffset :: "u8 list"
  m_NRPNop :: "u8 list"
  m_DeviceName :: string
  s_DeviceMap :: "string list"
  trace :: "event list"

definition emit :: "event \<Rightarrow> state \<Rightarrow> state" where
  "emit ev st = st\<lparr>trace := trace st @ [ev]\<rparr>"

definition wf_state :: "env \<Rightarrow> state \<Rightarrow> bool" where
  \<comment> \<open>the three arrays are declared with \<open>CConfig::ToneGenerators\<close> elements\<close>
  "wf_state e st \<longleftrightarrow> length (m_ChannelMap st) = ToneGenerators e
     \<and> length (m_NRPNoffset st) = ToneGenerators e
     \<and> length (m_NRPNop st) = ToneGenerators e"

section \<open>Operations\<close>

definition scale :: "u8 \<Rightarrow> u8 \<Rightarrow> u8" where
  "scale max_v value_v = ucast (((ucast value_v :: 32 word) * ucast max_v) div 127)"

definition CMIDIDevice :: "env \<Rightarrow> string list \<Rightarrow> state" where
  \<comment> \<open>the constructor; the registry is the static member shared by all devices\<close>
  "CMIDIDevice e registry =
     \<lparr>m_ChannelMap = replicate (ToneGenerators e) (of_nat (Disabled e)),
      m_NRPNoffset = replicate (ToneGenerators e) 0,
      m_NRPNop = replicate (ToneGenerators e) 0,
      m_DeviceName = [],
      s_DeviceMap = registry,
      trace = []\<rparr>"

definition SetChannel :: "env \<Rightarrow> u8 \<Rightarrow> nat \<Rightarrow> state \<Rightarrow> error + state" where
  "SetChannel e ucChannel nTG st =
     (if nTG < ToneGenerators e
      then Inr (st\<lparr>m_ChannelMap := (m_ChannelMap st)[nTG := ucChannel]\<rparr>)
      else Inl AssertionFailed)"

definition GetChannel :: "env \<Rightarrow> nat \<Rightarrow> state \<Rightarrow> error + u8" where
  "GetChannel e nTG st =
     (if nTG < ToneGenerators e then Inr (m_ChannelMap st ! nTG) else Inl AssertionFailed)"


subsection \<open>The dispatcher's prologue: dump, Thru, master volume\<close>

partial_function (option) dump_loop :: "u8 list \<Rightarrow> 16 word \<Rightarrow> unit option" where
  "dump_loop m i = (if unat i < length m then dump_loop m (i + 1) else Some ())"

declare dump_loop.simps [code]

definition MIDIDump :: "env \<Rightarrow> u8 list \<Rightarrow> error + unit" where
  \<comment> \<open>the \<open>switch (nLength)\<close> under \<open>GetMIDIDumpEnabled\<close>: what is printed is not
      recorded, whether the block is left is. For \<open>nLength = 0\<close> the \<open>default\<close> branch
      switches on a byte outside the buffer; whichever case that byte selects, the
      branch prints (the loop runs zero times) and leaves the block. For a SysEx
      buffer of 4 bytes or more the \<open>uint16_t\<close> loop runs.\<close>
  "MIDIDump e m =
     (if \<not> GetMIDIDumpEnabled e then Inr ()
      else if length m = 1 then bind_res (byte_at m 0) (\<lambda>_. Inr ())
      else if length m = 2 then
        bind_res (byte_at m 0) (\<lambda>_. bind_res (byte_at m 1) (\<lambda>_. Inr ()))
      else if length m = 3 then
        bind_res (byte_at m 0) (\<lambda>_. bind_res (byte_at m 1) (\<lambda>_.
          bind_res (byte_at m 2) (\<lambda>_. Inr ())))
      else
        (case m of
           [] \<Rightarrow> Inr ()
         | b0 # _ \<Rightarrow>
             if b0 = 0xF0
             then (case dump_loop m 0 of None \<Rightarrow> Inl NoReturn | Some _ \<Rightarrow> Inr ())
             else Inr ()))"

definition MIDIThru :: "env \<Rightarrow> u8 list \<Rightarrow> nat \<Rightarrow> state \<Rightarrow> state" where
  "MIDIThru e m nCable st =
     (if m_DeviceName st = GetMIDIThruIn e
      then (if GetMIDIThruOut e \<in> set (s_DeviceMap st)
            then emit (Send (GetMIDIThruOut e) m (Some nCable)) st
            else st)
      else st)"

definition is_master_volume :: "u8 list \<Rightarrow> error + bool" where
  \<comment> \<open>the condition of line 189, evaluated left to right with short-circuit \<open>&&\<close>\<close>
  "is_master_volume m =
     bind_res (byte_at m 0) (\<lambda>b0.
       if b0 \<noteq> 0xF0 then Inr False
       else bind_res (byte_at m 3) (\<lambda>b3.
         if b3 \<noteq> 0x04 then Inr False
         else bind_res (byte_at m 4) (\<lambda>b4.
           if b4 \<noteq> 0x01 then Inr False
           else bind_res (byte_at m (length m - 1)) (\<lambda>bl. Inr (bl = 0xF7)))))"

definition master_volume :: "u8 \<Rightarrow> u8 \<Rightarrow> real" where
  \<comment> \<open>\<open>((pMessage[5] & 0x7c) & ((pMessage[6] & 0x7c) <<7))/(1<<14)\<close>, computed on
      \<open>int\<close> (the bytes are promoted, no value leaves 32 bits, \<open>/\<close> truncates) and then
      converted to \<open>float32_t\<close>, which holds every such quotient exactly\<close>
  "master_volume b5 b6 =
     of_int (((uint b5 AND 0x7c) AND push_bit 7 (uint b6 AND 0x7c)) sdiv push_bit 14 1)"

definition PrePass :: "env \<Rightarrow> u8 list \<Rightarrow> u8 \<Rightarrow> state \<Rightarrow> error + state" where
  \<comment> \<open>the first \<open>switch (ucType)\<close>, before the tone generators\<close>
  "PrePass e m ucStatus st =
     (let ucChannel = ucStatus AND 0x0F; ucType = drop_bit 4 ucStatus in
      if ucType = 0xB \<or> ucType = 0x8 \<or> ucType = 0x9 then
        (if length m < 3 then Inr st
         else bind_res (byte_at m 1) (\<lambda>b1. bind_res (byte_at m 2) (\<lambda>b2.
                Inr (emit (UIMIDICmdHandler ucChannel (ucStatus AND 0xF0) b1 b2) st))))
      else if ucType = 0xC then
        (if GetMIDIRXProgramChange e then
           (let nPerfCh = GetPerformanceSelectChannel e (trace st) in
            if nPerfCh \<noteq> Disabled e then
              (if unat ucChannel = nPerfCh \<or> nPerfCh = OmniMode e
               then bind_res (byte_at m 1) (\<lambda>b1.
                      Inr (emit (Synth (ProgramChangePerformance b1)) st))
               else Inr st)
            else Inr st)
         else Inr st)
      else Inr st)"

subsection \<open>Voice dump and SysEx\<close>

definition SendSystemExclusiveVoice :: "env \<Rightarrow> u8 \<Rightarrow> nat \<Rightarrow> u8 \<Rightarrow> state \<Rightarrow> state" where
  \<comment> \<open>\<open>voicedump\<close> is the 163-byte array after \<open>getSysExVoiceDump\<close> has filled it; each
      \<open>Send\<close> is called with two arguments, the cable left to its default\<close>
  "SendSystemExclusiveVoice e nVoice nCable nTG st =
     (let voicedump = map (getSysExVoiceDump e (trace st) nTG) [0..<163]
      in foldl (\<lambda>s name. emit (Send name voicedump None) s) st (s_DeviceMap st))"

definition function_setter_of :: "int \<Rightarrow> function_setter" where
  "function_setter_of c =
     (if c = 64 then setMonoMode
      else if c = 65 then setPitchbendRange
      else if c = 66 then setPitchbendStep
      else if c = 67 then setPortamentoMode
      else if c = 68 then setPortamentoGlissando
      else if c = 69 then setPortamentoTime
      else if c = 70 then setModWheelRange
      else if c = 71 then setModWheelTarget
      else if c = 72 then setFootControllerRange
      else if c = 73 then setFootControllerTarget
      else if c = 74 then setBreathControllerRange
      else if c = 75 then setBreathControllerTarget
      else if c = 76 then setAftertouchRange
      else setAftertouchTarget)"

definition HandleSystemExclusive :: "env \<Rightarrow> u8 list \<Rightarrow> nat \<Rightarrow> u8 \<Rightarrow> state \<Rightarrow> error + state" where
  \<comment> \<open>the reads are those of the log line and of the call, in the order written\<close>
  "HandleSystemExclusive e m nCable nTG st =
     (let sysex_return = sint (checkSystemExclusive e (trace st) m nTG) in
      if sysex_return = -1 \<or> sysex_return = -2 \<or> sysex_return = -3 \<or> sysex_return = -4
         \<or> sysex_return = -5 \<or> sysex_return = -6 \<or> sysex_return = -7 \<or> sysex_return = -8
         \<or> sysex_return = -9 \<or> sysex_return = -10 \<or> sysex_return = -11
      then Inr st
      else if 64 \<le> sysex_return \<and> sysex_return \<le> 77 then
        bind_res (byte_at m 4) (\<lambda>_. bind_res (byte_at m 5) (\<lambda>b5.
          Inr (emit (Synth (FunctionParameter (function_setter_of sysex_return) b5 (unat nTG))) st)))
      else if sysex_return = 100 then
        Inr (emit (Synth (loadVoiceParameters m (unat nTG))) st)
      else if sysex_return = 200 then Inr st
      else if 300 \<le> sysex_return \<and> sysex_return < 500 then
        bind_res (byte_at m 4) (\<lambda>b4. bind_res (byte_at m 3) (\<lambda>b3. bind_res (byte_at m 5) (\<lambda>b5.
          let param = unat b4 + unat (b3 AND 0x03) * 128;
              st1 = emit (Synth (setVoiceDataElement param b5 (unat nTG))) st
          in Inr (if param = 134 then emit (Synth (notesOff 0 (unat nTG))) st1 else st1))))
      else if 500 \<le> sysex_return \<and> sysex_return < 600 then
        Inr (SendSystemExclusiveVoice e (word_of_int (sysex_return - 500)) nCable nTG st)
      else Inr st)"

subsection \<open>NRPN\<close>

definition op_register :: "DexedVoiceOPParameters \<Rightarrow> u8 \<Rightarrow> u8 \<Rightarrow> dexed_call" where
  \<comment> \<open>the switch under \<open>m_NRPNop[nTG] < 6\<close>\<close>
  "op_register p op v =
     (case p of
        DEXED_OP_EG_R1 \<Rightarrow> setOPRate op 0 (scale 99 v)
      | DEXED_OP_EG_R2 \<Rightarrow> setOPRate op 1 (scale 99 v)
      | DEXED_OP_EG_R3 \<Rightarrow> setOPRate op 2 (scale 99 v)
      | DEXED_OP_EG_R4 \<Rightarrow> setOPRate op 3 (scale 99 v)
      | DEXED_OP_EG_L1 \<Rightarrow> setOPLevel op 0 (scale 99 v)
      | DEXED_OP_EG_L2 \<Rightarrow> setOPLevel op 1 (scale 99 v)
      | DEXED_OP_EG_L3 \<Rightarrow> setOPLevel op 2 (scale 99 v)
      | DEXED_OP_EG_L4 \<Rightarrow> setOPLevel op 3 (scale 99 v)
      | DEXED_OP_LEV_SCL_BRK_PT \<Rightarrow> setOPKeyboardLevelScalingBreakPoint op (scale 99 v)
      | DEXED_OP_SCL_LEFT_DEPTH \<Rightarrow> setOPKeyboardLevelScalingDepthLeft op (scale 99 v)
      | DEXED_OP_SCL_RGHT_DEPTH \<Rightarrow> setOPKeyboardLevelScalingDepthRight op (scale 99 v)
      | DEXED_OP_SCL_LEFT_CURVE \<Rightarrow> setOPKeyboardLevelScalingCurveLeft op (scale 3 v)
      | DEXED_OP_SCL_RGHT_CURVE \<Rightarrow> setOPKeyboardLevelScalingCurveRight op (scale 3 v)
      | DEXED_OP_OSC_RATE_SCALE \<Rightarrow> setOPKeyboardRateScale op (scale 7 v)
      | DEXED_OP_AMP_MOD_SENS \<Rightarrow> setOPAmpModulationSensity op (scale 3 v)
      | DEXED_OP_KEY_VEL_SENS \<Rightarrow> setOPKeyboardVelocitySensity op (scale 7 v)
      | DEXED_OP_OUTPUT_LEV \<Rightarrow> setOPOutputLevel op (scale 99 v)
      | DEXED_OP_OSC_MODE \<Rightarrow> setOPMode op (scale 1 v)
      | DEXED_OP_FREQ_COARSE \<Rightarrow> setOPFrequencyCoarse op (scale 31 v)
      | DEXED_OP_FREQ_FINE \<Rightarrow> setOPFrequencyFine op (scale 99 v)
      | DEXED_OP_OSC_DETUNE \<Rightarrow> setOPDetune op (scale 14 v))"

definition voice_register :: "DexedVoiceParameters \<Rightarrow> u8 \<Rightarrow> dexed_call" where
  \<comment> \<open>the switch under \<open>m_NRPNop[nTG] == 6\<close>\<close>
  "voice_register p v =
     (case p of
        DEXED_PITCH_EG_R1 \<Rightarrow> setPitchRate 0 (scale 99 v)
      | DEXED_PITCH_EG_R2 \<Rightarrow> setPitchRate 1 (scale 99 v)
      | DEXED_PITCH_EG_R3 \<Rightarrow> setPitchRate 2 (scale 99 v)
      | DEXED_PITCH_EG_R4 \<Rightarrow> setPitchRate 3 (scale 99 v)
      | DEXED_PITCH_EG_L1 \<Rightarrow> setPitchLevel 0 (scale 99 v)
      | DEXED_PITCH_EG_L2 \<Rightarrow> setPitchLevel 1 (scale 99 v)
      | DEXED_PITCH_EG_L3 \<Rightarrow> setPitchLevel 2 (scale 99 v)
      | DEXED_PITCH_EG_L4 \<Rightarrow> setPitchLevel 3 (scale 99 v)
      | DEXED_ALGORITHM \<Rightarrow> setAlgorithm (scale 31 v)
      | DEXED_FEEDBACK \<Rightarrow> setFeedback (scale 7 v)
      | DEXED_OSC_KEY_SYNC \<Rightarrow> setOscillatorSync (scale 1 v)
      | DEXED_LFO_SPEED \<Rightarrow> setLFOSpeed (scale 99 v)
      | DEXED_LFO_DELAY \<Rightarrow> setLFODelay (scale 99 v)
      | DEXED_LFO_PITCH_MOD_DEP \<Rightarrow> setLFOPitchModulationDepth (scale 99 v)
      | DEXED_LFO_AMP_MOD_DEP \<Rightarrow> setLFOAmpModulationDepth (scale 99 v)
      | DEXED_LFO_SYNC \<Rightarrow> setLFOSync (scale 1 v)
      | DEXED_LFO_WAVE \<Rightarrow> setLFOWaveform (scale 4 v)
      | DEXED_LFO_PITCH_MOD_SENS \<Rightarrow> setLFOPitchModulationSensitivity (scale 7 v)
      | DEXED_TRANSPOSE \<Rightarrow> setTranspose (scale 48 v))"

definition NRPNDataLSB :: "env \<Rightarrow> u8 \<Rightarrow> nat \<Rightarrow> state \<Rightarrow> state" where
  \<comment> \<open>\<open>case MIDI_CC_NRPN_DATA_LSB\<close>, with \<open>v = pMessage[2]\<close>; 21 is
      \<open>MIDI_NRPN_PROGRAM_CHANGE\<close>\<close>
  "NRPNDataLSB e v nTG st =
     (if m_NRPNoffset st ! nTG = 21 then emit (Synth (ProgramChange v nTG)) st
      else
        (let st1 =
           (if m_NRPNop st ! nTG < 6
            then SendSystemExclusiveVoice e 0 0 (of_nat nTG)
                   (case op_parameter e (unat (m_NRPNoffset st ! nTG)) of
                      Some p \<Rightarrow> emit (TG nTG (op_register p (m_NRPNop st ! nTG) v)) st
                    | None \<Rightarrow> st)
            else st)
         in if m_NRPNop st1 ! nTG = 6
            then SendSystemExclusiveVoice e 0 0 (of_nat nTG)
                   (case voice_parameter e (unat (m_NRPNoffset st1 ! nTG)) of
                      Some p \<Rightarrow> emit (TG nTG (voice_register p v)) st1
                    | None \<Rightarrow> st1)
            else st1))"

subsection \<open>Control Change and the channel messages\<close>

text \<open>
  Modelled from the spec: \<open>maplong\<close> is declared in a header of the repository that is
  not among the sources at hand. The spec describes it as the linear rescale of an
  input range to an output range, \<open>floor(v*99/127)\<close> for \<open>[0,127]\<close> to \<open>[0,99]\<close>.
\<close>

definition maplong :: "int \<Rightarrow> int \<Rightarrow> int \<Rightarrow> int \<Rightarrow> int \<Rightarrow> int" where
  "maplong x in_min in_max out_min out_max =
     (x - in_min) * (out_max - out_min) div (in_max - in_min) + out_min"

definition ControlChange :: "env \<Rightarrow> u8 \<Rightarrow> u8 \<Rightarrow> nat \<Rightarrow> state \<Rightarrow> state" where
  \<comment> \<open>\<open>switch (pMessage[1])\<close>, with \<open>cc = pMessage[1]\<close> and \<open>v = pMessage[2]\<close>\<close>
  "ControlChange e cc v nTG st =
     (if cc = 1 then emit (Synth (ControllersRefresh nTG)) (emit (Synth (setModWheel v nTG)) st)
      else if cc = 4 then
        emit (Synth (ControllersRefresh nTG)) (emit (Synth (setFootController v nTG)) st)
      else if cc = 2 then
        emit (Synth (ControllersRefresh nTG)) (emit (Synth (setBreathController v nTG)) st)
      else if cc = 7 then emit (Synth (SetVolume v nTG)) st
      else if cc = 10 then emit (Synth (SetPan v nTG)) st
      else if cc = 0 then emit (Synth (BankSelectMSB v nTG)) st
      else if cc = 32 then emit (Synth (BankSelectLSB v nTG)) st
      else if cc = 64 then emit (Synth (setSustain (64 \<le> v) nTG)) st
      else if cc = 71 then emit (Synth (SetResonance (maplong (uint v) 0 127 0 99) nTG)) st
      else if cc = 74 then emit (Synth (SetCutoff (maplong (uint v) 0 127 0 99) nTG)) st
      else if cc = 91 then emit (Synth (SetReverbSend (maplong (uint v) 0 127 0 99) nTG)) st
      else if cc = 94 then
        (if v = 0 then emit (Synth (SetMasterTune 0 nTG)) st
         else emit (Synth (SetMasterTune (maplong (uint v) 1 127 (-99) 99) nTG)) st)
      else if cc = 120 then emit (Synth (panic v nTG)) st
      else if cc = 123 then
        (if \<not> GetIgnoreAllNotesOff e \<and> unat (m_ChannelMap st ! nTG) \<noteq> OmniMode e
         then emit (Synth (notesOff v nTG)) st else st)
      else if cc = 99 then
        (if v \<le> 6 then st\<lparr>m_NRPNop := (m_NRPNop st)[nTG := v]\<rparr> else st)
      else if cc = 98 then st\<lparr>m_NRPNoffset := (m_NRPNoffset st)[nTG := v]\<rparr>
      else if cc = 38 then NRPNDataLSB e v nTG st
      else st)"

definition ChannelMessage :: "env \<Rightarrow> u8 list \<Rightarrow> u8 \<Rightarrow> nat \<Rightarrow> state \<Rightarrow> error + state" where
  \<comment> \<open>the second \<open>switch (ucType)\<close>, for a tone generator whose channel matches\<close>
  "ChannelMessage e m ucType nTG st =
     (if ucType = 0x9 then
        (if length m < 3 then Inr st
         else bind_res (byte_at m 2) (\<lambda>b2.
                if 0 < b2 then
                  (if b2 \<le> 127
                   then bind_res (byte_at m 1) (\<lambda>b1. Inr (emit (Synth (keydown b1 b2 nTG)) st))
                   else Inr st)
                else bind_res (byte_at m 1) (\<lambda>b1. Inr (emit (Synth (keyup b1 nTG)) st))))
      else if ucType = 0x8 then
        (if length m < 3 then Inr st
         else bind_res (byte_at m 1) (\<lambda>b1. Inr (emit (Synth (keyup b1 nTG)) st)))
      else if ucType = 0xD then
        bind_res (byte_at m 1) (\<lambda>b1.
          Inr (emit (Synth (ControllersRefresh nTG)) (emit (Synth (setAftertouch b1 nTG)) st)))
      else if ucType = 0xB then
        (if length m < 3 then Inr st
         else bind_res (byte_at m 1) (\<lambda>cc. bind_res (byte_at m 2) (\<lambda>v.
                Inr (ControlChange e cc v nTG st))))
      else if ucType = 0xC then
        (if GetMIDIRXProgramChange e \<and> GetPerformanceSelectChannel e (trace st) = Disabled e
         then bind_res (byte_at m 1) (\<lambda>b1. Inr (emit (Synth (ProgramChange b1 nTG)) st))
         else Inr st)
      else if ucType = 0xE then
        (if length m < 3 then Inr st
         else bind_res (byte_at m 1) (\<lambda>b1. bind_res (byte_at m 2) (\<lambda>b2.
                Inr (emit (Synth (setPitchbend
                       (sint (((ucast b1 :: 16 word) OR push_bit 7 (ucast b2)) - 0x2000)) nTG)) st))))
      else Inr st)"

subsection \<open>The loop over the tone generators and the handler\<close>

definition ProcessTG :: "env \<Rightarrow> u8 list \<Rightarrow> nat \<Rightarrow> u8 \<Rightarrow> nat \<Rightarrow> state \<Rightarrow> error + state" where
  \<comment> \<open>the body of the \<open>for\<close> loop\<close>
  "ProcessTG e m nCable ucStatus nTG st =
     (if ucStatus = 0xF0 then
        bind_res (byte_at m 2) (\<lambda>b2.
          if m_ChannelMap st ! nTG = (b2 AND 0x0F) \<or> unat (m_ChannelMap st ! nTG) = OmniMode e
          then HandleSystemExclusive e m nCable (of_nat nTG) st
          else Inr st)
      else if m_ChannelMap st ! nTG = (ucStatus AND 0x0F)
              \<or> unat (m_ChannelMap st ! nTG) = OmniMode e
      then ChannelMessage e m (drop_bit 4 ucStatus) nTG st
      else Inr st)"

function ToneGeneratorLoop ::
  "env \<Rightarrow> u8 list \<Rightarrow> nat \<Rightarrow> u8 \<Rightarrow> nat \<Rightarrow> state \<Rightarrow> error + state" where
  "ToneGeneratorLoop e m nCable ucStatus nTG st =
     (if nTG < ToneGenerators e then
        (case ProcessTG e m nCable ucStatus nTG st of
           Inl err \<Rightarrow> Inl err
         | Inr st' \<Rightarrow> ToneGeneratorLoop e m nCable ucStatus (Suc nTG) st')
      else Inr st)"
  by pat_completeness auto
termination
  by (relation "measure (\<lambda>(e, m, nCable, ucStatus, nTG, st). ToneGenerators e - nTG)") auto

declare ToneGeneratorLoop.simps [simp del]

definition Dispatch :: "env \<Rightarrow> u8 list \<Rightarrow> nat \<Rightarrow> state \<Rightarrow> error + state" where
  \<comment> \<open>the handler from the length check on: the gate, the lock, the master volume
      or the pre-pass and the loop, the release\<close>
  "Dispatch e m nCable st1 =
     (if length m < 2 then Inr st1
      else
        (let st2 = emit Acquire st1 in
         bind_res (byte_at m 0) (\<lambda>ucStatus.
           bind_res (is_master_volume m) (\<lambda>mv.
             bind_res
               (if mv
                then bind_res (byte_at m 5) (\<lambda>b5. bind_res (byte_at m 6) (\<lambda>b6.
                       Inr (emit (Synth (setMasterVolume (master_volume b5 b6))) st2)))
                else bind_res (PrePass e m ucStatus st2)
                       (ToneGeneratorLoop e m nCable ucStatus 0))
               (\<lambda>st3. Inr (emit Release st3))))))"

definition MIDIMessageHandler :: "env \<Rightarrow> u8 list \<Rightarrow> nat \<Rightarrow> state \<Rightarrow> error + state" where
  \<comment> \<open>the dump, then the Thru forward, then the rest on the device as the forward
      left it\<close>
  "MIDIMessageHandler e m nCable st =
     bind_res (MIDIDump e m) (\<lambda>_. Dispatch e m nCable (MIDIThru e m nCable st))"

section \<open>A concrete configuration for the closed examples\<close>

text \<open>
  Two tone generators, \<open>OmniMode = 16\<close> and \<open>Disabled = 17\<close>, the enumerators numbered
  from 0 in the order of their declaration, the dump off, program changes received,
  no performance-select channel, every SysEx frame classified as unknown (-11), and
  a voice dump whose byte \<open>i\<close> is \<open>i\<close>.
\<close>

definition op_parameter_std :: "nat \<Rightarrow> DexedVoiceOPParameters option" where
  "op_parameter_std n =
     (if n < 21
      then Some ([DEXED_OP_EG_R1, DEXED_OP_EG_R2, DEXED_OP_EG_R3, DEXED_OP_EG_R4,
                  DEXED_OP_EG_L1, DEXED_OP_EG_L2, DEXED_OP_EG_L3, DEXED_OP_EG_L4,
                  DEXED_OP_LEV_SCL_BRK_PT, DEXED_OP_SCL_LEFT_DEPTH, DEXED_OP_SCL_RGHT_DEPTH,
                  DEXED_OP_SCL_LEFT_CURVE, DEXED_OP_SCL_RGHT_CURVE, DEXED_OP_OSC_RATE_SCALE,
                  DEXED_OP_AMP_MOD_SENS, DEXED_OP_KEY_VEL_SENS, DEXED_OP_OUTPUT_LEV,
                  DEXED_OP_OSC_MODE, DEXED_OP_FREQ_COARSE, DEXED_OP_FREQ_FINE,
                  DEXED_OP_OSC_DETUNE] ! n)
      else None)"

definition voice_parameter_std :: "nat \<Rightarrow> DexedVoiceParameters option" where
  "voice_parameter_std n =
     (if n < 19
      then Some ([DEXED_PITCH_EG_R1, DEXED_PITCH_EG_R2, DEXED_PITCH_EG_R3, DEXED_PITCH_EG_R4,
                  DEXED_PITCH_EG_L1, DEXED_PITCH_EG_L2, DEXED_PITCH_EG_L3, DEXED_PITCH_EG_L4,
                  DEXED_ALGORITHM, DEXED_FEEDBACK, DEXED_OSC_KEY_SYNC, DEXED_LFO_SPEED,
                  DEXED_LFO_DELAY, DEXED_LFO_PITCH_MOD_DEP, DEXED_LFO_AMP_MOD_DEP,
                  DEXED_LFO_SYNC, DEXED_LFO_WAVE, DEXED_LFO_PITCH_MOD_SENS,
                  DEXED_TRANSPOSE] ! n)
      else None)"

definition example_env :: env where
  "example_env =
     \<lparr>ToneGenerators = 2, OmniMode = 16, Disabled = 17,
      op_parameter = op_parameter_std, voice_parameter = voice_parameter_std,
      GetMIDIDumpEnabled = False, GetMIDIThruIn = ''in'', GetMIDIThruOut = ''out'',
      GetMIDIRXProgramChange = True, GetIgnoreAllNotesOff = False,
      GetPerformanceSelectChannel = (\<lambda>_. 17),
      checkSystemExclusive = (\<lambda>_ _ _. - 11),
      getSysExVoiceDump = (\<lambda>_ _ i. of_nat i)\<rparr>"

definition example_state :: state where
  \<comment> \<open>the device \<open>in\<close> after construction, with slot 0 on channel 0 and slot 1 Omni\<close>
  "example_state =
     \<lparr>m_ChannelMap = [0, 16], m_NRPNoffset = [0, 0], m_NRPNop = [0, 0],
      m_DeviceName = ''in'', s_DeviceMap = [''in'', ''out''], trace = []\<rparr>"

definition example_env_request :: env where
  \<comment> \<open>as \<open>example_env\<close>, with every SysEx frame classified as a request for voice 1\<close>
  "example_env_request = example_env\<lparr>checkSystemExclusive := (\<lambda>_ _ _. 501)\<rparr>"

section \<open>What the specification says of the master volume\<close>

definition spec_master_volume :: "u8 \<Rightarrow> u8 \<Rightarrow> real" where
  \<comment> \<open>the 14-bit combination of the 7-bit fields at offsets 5 (low) and 6 (high),
      divided by \<open>2 ^ 14\<close>\<close>
  "spec_master_volume b5 b6 =
     (real (unat (b5 AND 0x7F)) + real (unat (b6 AND 0x7F)) * 2 ^ 7) / 2 ^ 14"

section \<open>What the specification says of an NRPN commit\<close>

text \<open>
  The rescale of the 7-bit input to a register's ceiling is \<open>floor(raw * ceiling / 127)\<close>.
  A group below 6 addresses the registers of that operator, group 6 the voice-global
  registers; the tables give, register by register, the ceiling and the setter. A
  commit with offset 21 is a program change instead; every other commit is followed
  by the voice dump of the slot, sent to every registered device.
\<close>

definition rescale :: "nat \<Rightarrow> u8 \<Rightarrow> u8" where
  "rescale mx raw = of_nat (unat raw * mx div 127)"

definition op_ceiling :: "DexedVoiceOPParameters \<Rightarrow> nat" where
  "op_ceiling p =
     (if p \<in> {DEXED_OP_SCL_LEFT_CURVE, DEXED_OP_SCL_RGHT_CURVE, DEXED_OP_AMP_MOD_SENS} then 3
      else if p \<in> {DEXED_OP_OSC_RATE_SCALE, DEXED_OP_KEY_VEL_SENS} then 7
      else if p = DEXED_OP_OSC_MODE then 1
      else if p = DEXED_OP_FREQ_COARSE then 31
      else if p = DEXED_OP_OSC_DETUNE then 14
      else 99)"

definition op_setter :: "DexedVoiceOPParameters \<Rightarrow> u8 \<Rightarrow> u8 \<Rightarrow> dexed_call" where
  "op_setter p op x =
     (case p of
        DEXED_OP_EG_R1 \<Rightarrow> setOPRate op 0 x
      | DEXED_OP_EG_R2 \<Rightarrow> setOPRate op 1 x
      | DEXED_OP_EG_R3 \<Rightarrow> setOPRate op 2 x
      | DEXED_OP_EG_R4 \<Rightarrow> setOPRate op 3 x
      | DEXED_OP_EG_L1 \<Rightarrow> setOPLevel op 0 x
      | DEXED_OP_EG_L2 \<Rightarrow> setOPLevel op 1 x
      | DEXED_OP_EG_L3 \<Rightarrow> setOPLevel op 2 x
      | DEXED_OP_EG_L4 \<Rightarrow> setOPLevel op 3 x
      | DEXED_OP_LEV_SCL_BRK_PT \<Rightarrow> setOPKeyboardLevelScalingBreakPoint op x
      | DEXED_OP_SCL_LEFT_DEPTH \<Rightarrow> setOPKeyboardLevelScalingDepthLeft op x
      | DEXED_OP_SCL_RGHT_DEPTH \<Rightarrow> setOPKeyboardLevelScalingDepthRight op x
      | DEXED_OP_SCL_LEFT_CURVE \<Rightarrow> setOPKeyboardLevelScalingCurveLeft op x
      | DEXED_OP_SCL_RGHT_CURVE \<Rightarrow> setOPKeyboardLevelScalingCurveRight op x
      | DEXED_OP_OSC_RATE_SCALE \<Rightarrow> setOPKeyboardRateScale op x
      | DEXED_OP_AMP_MOD_SENS \<Rightarrow> setOPAmpModulationSensity op x
      | DEXED_OP_KEY_VEL_SENS \<Rightarrow> setOPKeyboardVelocitySensity op x
      | DEXED_OP_OUTPUT_LEV \<Rightarrow> setOPOutputLevel op x
      | DEXED_OP_OSC_MODE \<Rightarrow> setOPMode op x
      | DEXED_OP_FREQ_COARSE \<Rightarrow> setOPFrequencyCoarse op x
      | DEXED_OP_FREQ_FINE \<Rightarrow> setOPFrequencyFine op x
      | DEXED_OP_OSC_DETUNE \<Rightarrow> setOPDetune op x)"

definition voice_ceiling :: "DexedVoiceParameters \<Rightarrow> nat" where
  "voice_ceiling p =
     (if p = DEXED_ALGORITHM then 31
      else if p \<in> {DEXED_FEEDBACK, DEXED_LFO_PITCH_MOD_SENS} then 7
      else if p \<in> {DEXED_OSC_KEY_SYNC, DEXED_LFO_SYNC} then 1
      else if p = DEXED_LFO_WAVE then 4
      else if p = DEXED_TRANSPOSE then 48
      else 99)"

definition voice_setter :: "DexedVoiceParameters \<Rightarrow> u8 \<Rightarrow> dexed_call" where
  "voice_setter p x =
     (case p of
        DEXED_PITCH_EG_R1 \<Rightarrow> setPitchRate 0 x
      | DEXED_PITCH_EG_R2 \<Rightarrow> setPitchRate 1 x
      | DEXED_PITCH_EG_R3 \<Rightarrow> setPitchRate 2 x
      | DEXED_PITCH_EG_R4 \<Rightarrow> setPitchRate 3 x
      | DEXED_PITCH_EG_L1 \<Rightarrow> setPitchLevel 0 x
      | DEXED_PITCH_EG_L2 \<Rightarrow> setPitchLevel 1 x
      | DEXED_PITCH_EG_L3 \<Rightarrow> setPitchLevel 2 x
      | DEXED_PITCH_EG_L4 \<Rightarrow> setPitchLevel 3 x
      | DEXED_ALGORITHM \<Rightarrow> setAlgorithm x
      | DEXED_FEEDBACK \<Rightarrow> setFeedback x
      | DEXED_OSC_KEY_SYNC \<Rightarrow> setOscillatorSync x
      | DEXED_LFO_SPEED \<Rightarrow> setLFOSpeed x
      | DEXED_LFO_DELAY \<Rightarrow> setLFODelay x
      | DEXED_LFO_PITCH_MOD_DEP \<Rightarrow> setLFOPitchModulationDepth x
      | DEXED_LFO_AMP_MOD_DEP \<Rightarrow> setLFOAmpModulationDepth x
      | DEXED_LFO_SYNC \<Rightarrow> setLFOSync x
      | DEXED_LFO_WAVE \<Rightarrow> setLFOWaveform x
      | DEXED_LFO_PITCH_MOD_SENS \<Rightarrow> setLFOPitchModulationSensitivity x
      | DEXED_TRANSPOSE \<Rightarrow> setTranspose x)"

definition register_call :: "env \<Rightarrow> u8 \<Rightarrow> u8 \<Rightarrow> u8 \<Rightarrow> dexed_call option" where
  "register_call e g ofs d =
     (if g < 6 then map_option (\<lambda>p. op_setter p g (rescale (op_ceiling p) d))
                      (op_parameter e (unat ofs))
      else if g = 6 then map_option (\<lambda>p. voice_setter p (rescale (voice_ceiling p) d))
                      (voice_parameter e (unat ofs))
      else None)"

definition commit_calls :: "env \<Rightarrow> u8 \<Rightarrow> u8 \<Rightarrow> u8 \<Rightarrow> nat \<Rightarrow> event list" where
  "commit_calls e g ofs d nTG =
     (if ofs = 21 then []
      else (case register_call e g ofs d of Some call \<Rightarrow> [TG nTG call] | None \<Rightarrow> []))"

definition broadcast :: "env \<Rightarrow> event list \<Rightarrow> u8 \<Rightarrow> string list \<Rightarrow> event list" where
  "broadcast e hist nTG devices =
     map (\<lambda>name. Send name (map (getSysExVoiceDump e hist nTG) [0..<163]) None) devices"

definition commit_events ::
  "env \<Rightarrow> u8 \<Rightarrow> u8 \<Rightarrow> u8 \<Rightarrow> nat \<Rightarrow> event list \<Rightarrow> string list \<Rightarrow> event list" where
  "commit_events e g ofs d nTG hist devices =
     (if ofs = 21 then [Synth (ProgramChange d nTG)]
      else if g \<le> 6 then
        commit_calls e g ofs d nTG
          @ broadcast e (hist @ commit_calls e g ofs d nTG) (of_nat nTG) devices
      else [])"

section \<open>Reading the trace\<close>

definition new_events :: "state \<Rightarrow> state \<Rightarrow> event list" where
  \<comment> \<open>what a call added to the trace\<close>
  "new_events st st' = drop (length (trace st)) (trace st')"

definition is_key_call :: "nat \<Rightarrow> event \<Rightarrow> bool" where
  \<comment> \<open>a \<open>keydown\<close> or \<open>keyup\<close> for the tone generator\<close>
  "is_key_call nTG ev =
     (case ev of Synth (keydown _ _ t) \<Rightarrow> t = nTG | Synth (keyup _ t) \<Rightarrow> t = nTG | _ \<Rightarrow> False)"

definition is_master_tune_call :: "nat \<Rightarrow> event \<Rightarrow> bool" where
  "is_master_tune_call nTG ev = (case ev of Synth (SetMasterTune _ t) \<Rightarrow> t = nTG | _ \<Rightarrow> False)"

definition is_TG_call :: "nat \<Rightarrow> event \<Rightarrow> bool" where
  "is_TG_call nTG ev = (case ev of TG t _ \<Rightarrow> t = nTG | _ \<Rightarrow> False)"

section \<open>Properties\<close>

subsection \<open>Basic facts\<close>

lemma wf_CMIDIDevice: "wf_state e (CMIDIDevice e registry)"
  by (simp add: wf_state_def CMIDIDevice_def)

lemma bind_res_Inr [simp]: "bind_res (Inr x) f = f x"
  by (simp add: bind_res_def)

lemma bind_res_Inl [simp]: "bind_res (Inl err) f = Inl err"
  by (simp add: bind_res_def)

lemma byte_at_inside [simp]: "i < length m \<Longrightarrow> byte_at m i = Inr (m ! i)"
  by (simp add: byte_at_def)

lemma byte_at_outside [simp]: "\<not> i < length m \<Longrightarrow> byte_at m i = Inl (OutOfBounds i)"
  by (simp add: byte_at_def)

lemma emit_fields [simp]:
  "trace (emit ev st) = trace st @ [ev]"
  "m_ChannelMap (emit ev st) = m_ChannelMap st"
  "m_NRPNoffset (emit ev st) = m_NRPNoffset st"
  "m_NRPNop (emit ev st) = m_NRPNop st"
  "m_DeviceName (emit ev st) = m_DeviceName st"
  "s_DeviceMap (emit ev st) = s_DeviceMap st"
  by (simp_all add: emit_def)

lemma foldl_emit:
  "foldl (\<lambda>s name. emit (f name) s) st xs = st\<lparr>trace := trace st @ map f xs\<rparr>"
  by (induction xs arbitrary: st) (simp_all add: emit_def)

lemma SendSystemExclusiveVoice_eq:
  "SendSystemExclusiveVoice e nVoice nCable nTG st =
     st\<lparr>trace := trace st @
        map (\<lambda>name. Send name (map (getSysExVoiceDump e (trace st) nTG) [0..<163]) None)
          (s_DeviceMap st)\<rparr>"
  by (simp add: SendSystemExclusiveVoice_def Let_def foldl_emit)

subsection \<open>The dump loop returns on the buffers shorter than 65536 bytes, and on no other\<close>

lemma unat_u16_Suc: "unat (i :: 16 word) < n \<Longrightarrow> n < 65536 \<Longrightarrow> unat (i + 1) = Suc (unat i)"
  by (simp add: unat_word_ariths)

lemma dump_loop_returns: "length m < 65536 \<Longrightarrow> dump_loop m i = Some ()"
proof (induction "length m - unat i" arbitrary: i)
  case 0
  then show ?case by (subst dump_loop.simps) simp
next
  case (Suc k)
  then have lt: "unat i < length m" by linarith
  from lt Suc.prems have step: "unat (i + 1) = Suc (unat i)" by (rule unat_u16_Suc)
  with Suc.hyps(2) have "k = length m - unat (i + 1)" by simp
  with Suc.hyps(1) Suc.prems have "dump_loop m (i + 1) = Some ()" by blast
  with lt show ?case by (subst dump_loop.simps) simp
qed

text \<open>
  The counter of the dump loop has 16 bits: on a buffer of 65536 bytes or more it
  never reaches the length. So the dump block is left on every buffer but a SysEx
  buffer of 65536 bytes or more with the dump enabled, on which the handler does not
  return.
\<close>

lemma dump_loop_Some_short:
  assumes "dump_loop m i = Some y"
  shows "length m < 65536"
proof (rule dump_loop.raw_induct [where P = "\<lambda>m i y. length m < 65536", OF _ assms])
  fix f :: "u8 list \<Rightarrow> 16 word \<Rightarrow> unit option" and m i y
  assume IH: "\<And>m i y. f m i = Some y \<Longrightarrow> length m < 65536"
    and step: "(if unat i < length m then f m (i + 1) else Some ()) = Some y"
  show "length m < 65536"
  proof (cases "unat i < length m")
    case True
    with step have "f m (i + 1) = Some y" by simp
    then show ?thesis by (rule IH)
  next
    case False
    have "unat i < 2 ^ LENGTH(16)" by (rule unsigned_less)
    with False show ?thesis by simp
  qed
qed

lemma dump_loop_long: "65536 \<le> length m \<Longrightarrow> dump_loop m i = None"
  using dump_loop_Some_short [of m i] by (cases "dump_loop m i") auto

lemma MIDIDump_eq:
  "MIDIDump e m =
     (if GetMIDIDumpEnabled e \<and> 65536 \<le> length m \<and> m ! 0 = 0xF0 then Inl NoReturn else Inr ())"
proof (cases m)
  case Nil
  then show ?thesis by (simp add: MIDIDump_def)
next
  case (Cons b0 rest)
  show ?thesis
  proof (cases "length m < 65536")
    case True
    with Cons show ?thesis by (auto simp: MIDIDump_def dump_loop_returns)
  next
    case False
    then have "65536 \<le> length m" by simp
    with Cons show ?thesis by (auto simp: MIDIDump_def dump_loop_long)
  qed
qed

lemma MIDIDump_ok:
  "\<not> GetMIDIDumpEnabled e \<or> length m < 65536 \<Longrightarrow> MIDIDump e m = Inr ()"
  by (auto simp: MIDIDump_eq)

lemma MIDIDump_not_sysex: "m \<noteq> [] \<Longrightarrow> m ! 0 \<noteq> 0xF0 \<Longrightarrow> MIDIDump e m = Inr ()"
  by (simp add: MIDIDump_eq)


subsection \<open>Channel map\<close>

text \<open>
  C9. For a slot index below the number of tone generators, \<open>SetChannel\<close> succeeds and
  \<open>GetChannel\<close> on the resulting device returns the channel that was set.
\<close>

theorem SetChannel_GetChannel:
  "nTG < ToneGenerators e \<Longrightarrow> wf_state e st \<Longrightarrow>
     \<exists>st'. SetChannel e c nTG st = Inr st' \<and> GetChannel e nTG st' = Inr c"
  by (simp add: SetChannel_def GetChannel_def wf_state_def)

theorem SetChannel_GetChannel_witness:
  "1 < ToneGenerators example_env \<and> wf_state example_env example_state \<and>
     (\<exists>st'. SetChannel example_env 5 1 example_state = Inr st'
            \<and> GetChannel example_env 1 st' = Inr 5)"
proof -
  have a: "1 < ToneGenerators example_env" by (simp add: example_env_def)
  have b: "wf_state example_env example_state"
    by (simp add: wf_state_def example_env_def example_state_def)
  from a b SetChannel_GetChannel [OF a b, of 5] show ?thesis by blast
qed

subsection \<open>Master volume\<close>

lemma master_volume_zero: "master_volume b5 b6 = 0"
proof -
  have "(uint b5 AND 0x7c) AND push_bit 7 (uint b6 AND 0x7c) \<le> uint b5 AND 0x7c"
    by (rule AND_upper1) simp
  also have "\<dots> \<le> 0x7c" by (rule AND_upper2) simp
  finally have le: "(uint b5 AND 0x7c) AND push_bit 7 (uint b6 AND 0x7c) < 16384" by simp
  have ge: "0 \<le> (uint b5 AND 0x7c) AND push_bit 7 (uint b6 AND 0x7c)" by simp
  from le ge show ?thesis
    by (simp add: master_volume_def signed_divide_int_def sgn_if)
qed

lemma MIDIMessageHandler_master_volume:
  assumes "is_master_volume m = Inr True" and "7 \<le> length m" and "MIDIDump e m = Inr ()"
  shows "MIDIMessageHandler e m nCable st =
           Inr (emit Release (emit (Synth (setMasterVolume 0))
                  (emit Acquire (MIDIThru e m nCable st))))"
proof -
  from assms(2) have "0 < length m" "5 < length m" "6 < length m" "\<not> length m < 2" by auto
  with assms(1,3) show ?thesis
    by (simp add: MIDIMessageHandler_def Dispatch_def Let_def master_volume_zero)
qed

text \<open>
  C1. On the Master Volume frame \<open>F0 43 10 04 01 7F 7F F7\<close> the handler calls
  \<open>setMasterVolume\<close> with 0, where the 14-bit combination of the two fields divided
  by \<open>2 ^ 14\<close> is 16383/16384. By \<open>master_volume_zero\<close> the value passed is 0 for every
  recognized frame.
\<close>

theorem master_volume_frame_example:
  "MIDIMessageHandler example_env [0xF0, 0x43, 0x10, 0x04, 0x01, 0x7F, 0x7F, 0xF7] 0
       (example_state\<lparr>m_DeviceName := ''other''\<rparr>)
     = Inr (example_state\<lparr>m_DeviceName := ''other'',
              trace := [Acquire, Synth (setMasterVolume 0), Release]\<rparr>)
   \<and> spec_master_volume 0x7F 0x7F = 16383 / 16384"
  by (simp add: MIDIMessageHandler_def Dispatch_def MIDIDump_def MIDIThru_def
      is_master_volume_def Let_def
      master_volume_zero spec_master_volume_def example_env_def example_state_def emit_def)

text \<open>
  C10. A buffer that starts with \<open>0xF0\<close> and has 2 or 3 bytes, or 4 bytes with
  \<open>0x04\<close> at index 3, passes the length gate, and the master-volume check then reads
  index 3 (index 4 for the 4-byte buffer) past its end.
\<close>

theorem master_volume_check_out_of_bounds:
  assumes "m ! 0 = 0xF0"
    and "length m = 2 \<or> length m = 3 \<or> (length m = 4 \<and> m ! 3 = 0x04)"
  shows "MIDIMessageHandler e m nCable st = Inl (OutOfBounds (if length m = 4 then 4 else 3))"
proof -
  from assms(2) have "m \<noteq> []" and "length m < 65536" by auto
  then have d: "MIDIDump e m = Inr ()" by (simp add: MIDIDump_ok)
  from assms have "is_master_volume m = Inl (OutOfBounds (if length m = 4 then 4 else 3))"
    by (auto simp: is_master_volume_def)
  with d assms(2) show ?thesis
    by (auto simp: MIDIMessageHandler_def Dispatch_def Let_def)
qed

theorem master_volume_check_out_of_bounds_witness:
  "[0xF0, 0x43 :: u8] ! 0 = 0xF0 \<and> length [0xF0, 0x43 :: u8] = 2
   \<and> MIDIMessageHandler example_env [0xF0, 0x43] 1 example_state = Inl (OutOfBounds 3)"
  using master_volume_check_out_of_bounds [of "[0xF0, 0x43]" example_env 1 example_state]
  by simp

subsection \<open>SysEx\<close>

text \<open>
  C3. When the classification code is one of the eleven negative values -1 to -11, or
  lies outside every defined range, \<open>HandleSystemExclusive\<close> returns the device as it
  was: no call on a collaborator is made, and the channel map and the NRPN
  registers are unchanged.
\<close>

theorem HandleSystemExclusive_dropped:
  assumes "c = sint (checkSystemExclusive e (trace st) m nTG)"
    and "(- 11 \<le> c \<and> c \<le> - 1) \<or>
         \<not> ((64 \<le> c \<and> c \<le> 77) \<or> c = 100 \<or> c = 200
            \<or> (300 \<le> c \<and> c < 500) \<or> (500 \<le> c \<and> c < 600))"
  shows "HandleSystemExclusive e m nCable nTG st = Inr st"
  using assms by (auto simp: HandleSystemExclusive_def Let_def)

theorem HandleSystemExclusive_dropped_witness:
  "- 11 = sint (checkSystemExclusive example_env (trace example_state) [0xF0, 0x43, 0xF7] 0)
   \<and> HandleSystemExclusive example_env [0xF0, 0x43, 0xF7] 1 0 example_state = Inr example_state"
proof -
  have a: "- 11 = sint (checkSystemExclusive example_env (trace example_state) [0xF0, 0x43, 0xF7] 0)"
    by (simp add: example_env_def)
  from a HandleSystemExclusive_dropped [OF a, of 1] show ?thesis by simp
qed

text \<open>
  C5, as amended. For a classification code from 500 to 599, the handler sends the
  163 bytes that the synthesizer packs for the addressed tone generator to every
  registered device, in the order of the registry, each \<open>Send\<close> without a cable; the
  requested voice index and the originating cable do not enter the result.
\<close>

theorem HandleSystemExclusive_dump_request:
  assumes "c = sint (checkSystemExclusive e (trace st) m nTG)" and "500 \<le> c" and "c < 600"
  shows "HandleSystemExclusive e m nCable nTG st =
           Inr (st\<lparr>trace := trace st @
                  map (\<lambda>name. Send name (map (getSysExVoiceDump e (trace st) nTG) [0..<163]) None)
                    (s_DeviceMap st)\<rparr>)
         \<and> length (map (getSysExVoiceDump e (trace st) nTG) [0..<163]) = 163"
  using assms by (auto simp: HandleSystemExclusive_def Let_def SendSystemExclusiveVoice_eq)

theorem HandleSystemExclusive_dump_request_witness:
  "HandleSystemExclusive example_env_request [0xF0, 0x43, 0x20, 0x01, 0xF7] 3 0 example_state =
     Inr (example_state\<lparr>trace :=
            [Send ''in'' (map of_nat [0..<163]) None, Send ''out'' (map of_nat [0..<163]) None]\<rparr>)"
proof -
  have a: "501 = sint (checkSystemExclusive example_env_request (trace example_state)
                         [0xF0, 0x43, 0x20, 0x01, 0xF7] 0)"
    by (simp add: example_env_request_def example_env_def)
  from HandleSystemExclusive_dump_request [OF a, of 3] show ?thesis
    by (simp add: example_env_request_def example_env_def example_state_def)
qed

text \<open>
  C5, as stated, fails: for a request for voice 1 that arrived on cable 3, the two
  registered devices do not each receive a dump on cable 3.
\<close>

theorem HandleSystemExclusive_dump_request_counterexample:
  "\<not> (\<exists>dump. HandleSystemExclusive example_env_request [0xF0, 0x43, 0x20, 0x01, 0xF7] 3 0
                example_state =
              Inr (example_state\<lparr>trace :=
                     [Send ''in'' dump (Some 3), Send ''out'' dump (Some 3)]\<rparr>))"
  by (simp add: HandleSystemExclusive_def Let_def SendSystemExclusiveVoice_eq
      example_env_request_def example_env_def example_state_def)

subsection \<open>The loop over the tone generators\<close>

lemma is_key_call_simps [simp]:
  "is_key_call nTG (Synth (keydown n v t)) \<longleftrightarrow> t = nTG"
  "is_key_call nTG (Synth (keyup n t)) \<longleftrightarrow> t = nTG"
  "\<not> is_key_call nTG (Send name bs cb)"
  "\<not> is_key_call nTG Acquire"
  "\<not> is_key_call nTG Release"
  "\<not> is_key_call nTG (UIMIDICmdHandler a b c d)"
  by (simp_all add: is_key_call_def)

lemma new_events_append [simp]: "new_events st (st\<lparr>trace := trace st @ evs\<rparr>) = evs"
  by (simp add: new_events_def)

lemma MIDIThru_eq:
  "MIDIThru e m nCable st =
     st\<lparr>trace := trace st @
        (if m_DeviceName st = GetMIDIThruIn e \<and> GetMIDIThruOut e \<in> set (s_DeviceMap st)
         then [Send (GetMIDIThruOut e) m (Some nCable)] else [])\<rparr>"
  by (simp add: MIDIThru_def emit_def)

text \<open>
  When every pass of the loop only appends events, and the events selected by \<open>p\<close>
  come from the pass for tone generator \<open>i\<close> alone, the loop appends events of which
  \<open>p\<close> selects those of that pass.
\<close>

lemma ToneGeneratorLoop_filter:
  assumes body: "\<And>j s. j < ToneGenerators e \<Longrightarrow> I s \<Longrightarrow>
            ProcessTG e m nCable ucStatus j s = Inr (s\<lparr>trace := trace s @ evs j s\<rparr>)"
    and filt: "\<And>j s. j < ToneGenerators e \<Longrightarrow> I s \<Longrightarrow>
            filter p (evs j s) = (if j = i then X else [])"
    and inv: "\<And>s xs. I s \<Longrightarrow> I (s\<lparr>trace := trace s @ xs\<rparr>)"
  shows "I st \<Longrightarrow>
           \<exists>xs. ToneGeneratorLoop e m nCable ucStatus k st = Inr (st\<lparr>trace := trace st @ xs\<rparr>)
                 \<and> filter p xs = (if k \<le> i \<and> i < ToneGenerators e then X else [])"
proof (induction "ToneGenerators e - k" arbitrary: k st)
  case 0
  then have "ToneGeneratorLoop e m nCable ucStatus k st = Inr (st\<lparr>trace := trace st @ []\<rparr>)"
    by (subst ToneGeneratorLoop.simps) simp
  moreover from 0 have "filter p [] = (if k \<le> i \<and> i < ToneGenerators e then X else [])" by auto
  ultimately show ?case by blast
next
  case (Suc d)
  then have lt: "k < ToneGenerators e" by linarith
  let ?s1 = "st\<lparr>trace := trace st @ evs k st\<rparr>"
  from lt Suc.prems have b: "ProcessTG e m nCable ucStatus k st = Inr ?s1" by (rule body)
  from lt Suc.prems have f1: "filter p (evs k st) = (if k = i then X else [])" by (rule filt)
  from Suc.prems have "I ?s1" by (rule inv)
  moreover from Suc.hyps(2) have "d = ToneGenerators e - Suc k" by simp
  ultimately obtain xs where
    r: "ToneGeneratorLoop e m nCable ucStatus (Suc k) ?s1 = Inr (?s1\<lparr>trace := trace ?s1 @ xs\<rparr>)"
    and f2: "filter p xs = (if Suc k \<le> i \<and> i < ToneGenerators e then X else [])"
    using Suc.hyps(1) by blast
  from b r lt have "ToneGeneratorLoop e m nCable ucStatus k st =
      Inr (st\<lparr>trace := trace st @ (evs k st @ xs)\<rparr>)"
    by (subst ToneGeneratorLoop.simps) simp
  moreover from f1 f2 lt have
    "filter p (evs k st @ xs) = (if k \<le> i \<and> i < ToneGenerators e then X else [])"
    by auto
  ultimately show ?case by blast
qed

lemma ProcessTG_NoteOn:
  assumes "3 \<le> length m" and "drop_bit 4 ucStatus = 0x9"
  shows "ProcessTG e m nCable ucStatus nTG st =
     Inr (st\<lparr>trace := trace st @
       (if m_ChannelMap st ! nTG = ucStatus AND 0x0F \<or> unat (m_ChannelMap st ! nTG) = OmniMode e
        then (if m ! 2 = 0 then [Synth (keyup (m ! 1) nTG)]
              else if m ! 2 \<le> 127 then [Synth (keydown (m ! 1) (m ! 2) nTG)] else [])
        else [])\<rparr>)"
proof -
  from assms(2) have ns: "ucStatus \<noteq> 0xF0" by auto
  show ?thesis
    using assms(1)
    by (simp add: ProcessTG_def ChannelMessage_def ns assms(2) emit_def word_greater_zero_iff)
qed

lemma PrePass_UI:
  assumes "3 \<le> length m" and "drop_bit 4 ucStatus = 0x9 \<or> drop_bit 4 ucStatus = 0x8 \<or> drop_bit 4 ucStatus = 0xB"
  shows "PrePass e m ucStatus st =
           Inr (emit (UIMIDICmdHandler (ucStatus AND 0x0F) (ucStatus AND 0xF0) (m ! 1) (m ! 2)) st)"
proof -
  from assms show ?thesis
    by (auto simp add: PrePass_def Let_def)
qed

lemma MIDIMessageHandler_channel:
  assumes "2 \<le> length m" and "m ! 0 \<noteq> 0xF0"
  shows "MIDIMessageHandler e m nCable st =
     bind_res (bind_res (PrePass e m (m ! 0) (emit Acquire (MIDIThru e m nCable st)))
                 (ToneGeneratorLoop e m nCable (m ! 0) 0))
       (\<lambda>st3. Inr (emit Release st3))"
proof -
  from assms(1) have len: "\<not> length m < 2" "0 < length m" "m \<noteq> []" by auto
  from len(3) assms(2) have d: "MIDIDump e m = Inr ()" by (rule MIDIDump_not_sysex)
  from len assms(2) have mv: "is_master_volume m = Inr False" by (simp add: is_master_volume_def)
  show ?thesis by (simp add: MIDIMessageHandler_def Dispatch_def Let_def d mv len)
qed

lemma MIDIMessageHandler_filter:
  assumes len: "3 \<le> length m"
    and type: "drop_bit 4 (m ! 0) = 0x9 \<or> drop_bit 4 (m ! 0) = 0x8 \<or> drop_bit 4 (m ! 0) = 0xB"
    and body: "\<And>j s. j < ToneGenerators e \<Longrightarrow> I s \<Longrightarrow>
            ProcessTG e m nCable (m ! 0) j s = Inr (s\<lparr>trace := trace s @ evs j s\<rparr>)"
    and filt: "\<And>j s. j < ToneGenerators e \<Longrightarrow> I s \<Longrightarrow>
            filter p (evs j s) = (if j = i then X else [])"
    and inv: "\<And>s xs. I s \<Longrightarrow> I (s\<lparr>trace := trace s @ xs\<rparr>)"
    and start: "I st" and slot: "i < ToneGenerators e"
    and other: "\<And>name bs cb. \<not> p (Send name bs cb)" "\<not> p Acquire" "\<not> p Release"
               "\<And>a b c d. \<not> p (UIMIDICmdHandler a b c d)"
  shows "\<exists>xs. MIDIMessageHandler e m nCable st = Inr (st\<lparr>trace := trace st @ xs\<rparr>)
              \<and> filter p xs = X"
proof -
  let ?thru = "if m_DeviceName st = GetMIDIThruIn e \<and> GetMIDIThruOut e \<in> set (s_DeviceMap st)
         then [Send (GetMIDIThruOut e) m (Some nCable)] else []"
  let ?pre = "?thru @ [Acquire, UIMIDICmdHandler (m ! 0 AND 0x0F) (m ! 0 AND 0xF0) (m ! 1) (m ! 2)]"
  let ?s0 = "st\<lparr>trace := trace st @ ?pre\<rparr>"
  from type have ns: "m ! 0 \<noteq> 0xF0" by auto
  have pp: "PrePass e m (m ! 0) (emit Acquire (MIDIThru e m nCable st)) = Inr ?s0"
    using len type by (simp add: PrePass_UI MIDIThru_eq emit_def)
  from start have "I ?s0" by (rule inv)
  with body filt inv have
    "\<exists>xs. ToneGeneratorLoop e m nCable (m ! 0) 0 ?s0 = Inr (?s0\<lparr>trace := trace ?s0 @ xs\<rparr>)
          \<and> filter p xs = (if 0 \<le> i \<and> i < ToneGenerators e then X else [])"
    by (rule ToneGeneratorLoop_filter)
  then obtain xs where
    l: "ToneGeneratorLoop e m nCable (m ! 0) 0 ?s0 = Inr (?s0\<lparr>trace := trace ?s0 @ xs\<rparr>)"
    and f: "filter p xs = X" using slot by auto
  from len have "2 \<le> length m" by simp
  then have "MIDIMessageHandler e m nCable st =
      Inr (st\<lparr>trace := trace st @ (?pre @ xs @ [Release])\<rparr>)"
    using ns pp l by (simp add: MIDIMessageHandler_channel emit_def)
  moreover have "filter p (?pre @ xs @ [Release]) = X"
    using f other by simp
  ultimately show ?thesis by blast
qed

subsection \<open>Note On\<close>

text \<open>
  C6, as amended. For a Note-On message of at least 3 bytes and a slot whose channel
  is the message's or which is Omni, the handler returns, and the key calls it makes
  for that slot are: one \<open>keyup\<close> with the note when the velocity is 0; one \<open>keydown\<close>
  with the note and the velocity when the velocity is from 1 to 127; none when the
  velocity byte is above 127.
\<close>

theorem NoteOn_key_calls:
  assumes "3 \<le> length m" and "drop_bit 4 (m ! 0) = 0x9"
    and "nTG < ToneGenerators e" and "wf_state e st"
    and "m_ChannelMap st ! nTG = m ! 0 AND 0x0F \<or> unat (m_ChannelMap st ! nTG) = OmniMode e"
  shows "\<exists>st'. MIDIMessageHandler e m nCable st = Inr st' \<and>
           filter (is_key_call nTG) (new_events st st') =
             (if m ! 2 = 0 then [Synth (keyup (m ! 1) nTG)]
              else if m ! 2 \<le> 127 then [Synth (keydown (m ! 1) (m ! 2) nTG)]
              else [])"
proof -
  let ?X = "if m ! 2 = 0 then [Synth (keyup (m ! 1) nTG)]
            else if m ! 2 \<le> 127 then [Synth (keydown (m ! 1) (m ! 2) nTG)] else []"
  let ?I = "\<lambda>s :: state. m_ChannelMap s = m_ChannelMap st"
  let ?evs = "\<lambda>(j :: nat) (s :: state).
       if m_ChannelMap s ! j = m ! 0 AND 0x0F \<or> unat (m_ChannelMap s ! j) = OmniMode e
       then (if m ! 2 = 0 then [Synth (keyup (m ! 1) j)]
             else if m ! 2 \<le> 127 then [Synth (keydown (m ! 1) (m ! 2) j)] else [])
       else []"
  have "\<exists>xs. MIDIMessageHandler e m nCable st = Inr (st\<lparr>trace := trace st @ xs\<rparr>)
              \<and> filter (is_key_call nTG) xs = ?X"
  proof (rule MIDIMessageHandler_filter [where I = ?I and evs = ?evs and i = nTG])
    fix j s
    show "ProcessTG e m nCable (m ! 0) j s = Inr (s\<lparr>trace := trace s @ ?evs j s\<rparr>)"
      by (rule ProcessTG_NoteOn [OF assms(1,2)])
  next
    fix j and s :: state
    assume "?I s"
    then show "filter (is_key_call nTG) (?evs j s) = (if j = nTG then ?X else [])"
      using assms(5) by auto
  qed (simp_all add: assms)
  then show ?thesis by (metis new_events_append)
qed

theorem NoteOn_key_calls_witness:
  "\<exists>st'. MIDIMessageHandler example_env [0x90, 60, 100] 1 example_state = Inr st' \<and>
      filter (is_key_call 0) (new_events example_state st') = [Synth (keydown 60 100 0)]"
proof -
  have "m_ChannelMap example_state ! 0 = [0x90, 60, 100] ! 0 AND 0x0F"
    by (simp add: example_state_def)
  then have "m_ChannelMap example_state ! 0 = [0x90, 60, 100] ! 0 AND 0x0F
      \<or> unat (m_ChannelMap example_state ! 0) = OmniMode example_env" by (rule disjI1)
  with NoteOn_key_calls [of "[0x90, 60, 100]" 0 example_env example_state 1]
  show ?thesis by (simp add: example_env_def example_state_def wf_state_def)
qed

text \<open>
  C6, as stated, fails: a Note-On with velocity byte 200 on the channel of slot 0
  makes no key call at all.
\<close>

theorem NoteOn_key_calls_counterexample:
  "MIDIMessageHandler example_env [0x90, 60, 200] 1 example_state =
     Inr (example_state\<lparr>trace :=
       [Send ''out'' [0x90, 60, 200] (Some 1), Acquire, UIMIDICmdHandler 0 0x90 60 200, Release]\<rparr>)
   \<and> filter (is_key_call 0)
       [Send ''out'' [0x90, 60, 200] (Some 1), Acquire, UIMIDICmdHandler 0 0x90 60 200, Release] = []"
  by (simp add: MIDIMessageHandler_def Dispatch_def MIDIDump_def MIDIThru_def
      is_master_volume_def PrePass_def
      ProcessTG_def ChannelMessage_def ToneGeneratorLoop.simps Let_def
      example_env_def example_state_def emit_def)

subsection \<open>Control Change 94\<close>

lemma ProcessTG_ControlChange:
  assumes "3 \<le> length m" and "drop_bit 4 ucStatus = 0xB"
  shows "ProcessTG e m nCable ucStatus nTG st =
     Inr (if m_ChannelMap st ! nTG = ucStatus AND 0x0F \<or> unat (m_ChannelMap st ! nTG) = OmniMode e
          then ControlChange e (m ! 1) (m ! 2) nTG st else st)"
proof -
  from assms(2) have ns: "ucStatus \<noteq> 0xF0" by auto
  show ?thesis
    using assms(1)
    by (simp add: ProcessTG_def ChannelMessage_def ns assms(2))
qed

lemma ControlChange_detune:
  "ControlChange e 94 v nTG st =
     st\<lparr>trace := trace st @
        [Synth (SetMasterTune (if v = 0 then 0 else maplong (uint v) 1 127 (- 99) 99) nTG)]\<rparr>"
  by (simp add: ControlChange_def emit_def)

lemma is_master_tune_call_simps [simp]:
  "is_master_tune_call nTG (Synth (SetMasterTune x t)) \<longleftrightarrow> t = nTG"
  "\<not> is_master_tune_call nTG (Send name bs cb)"
  "\<not> is_master_tune_call nTG Acquire"
  "\<not> is_master_tune_call nTG Release"
  "\<not> is_master_tune_call nTG (UIMIDICmdHandler a b c d)"
  by (simp_all add: is_master_tune_call_def)

lemma maplong_detune_range:
  assumes "1 \<le> v" and "v \<le> 127"
  shows "- 99 \<le> maplong v 1 127 (- 99) 99 \<and> maplong v 1 127 (- 99) 99 \<le> 99"
proof -
  from assms have "0 \<le> (v - 1) * 198 div 126" by simp
  moreover from assms have "(v - 1) * 198 \<le> 126 * 198" by simp
  then have "(v - 1) * 198 div 126 \<le> 126 * 198 div 126" by (rule zdiv_mono1) simp
  ultimately show ?thesis by (simp add: maplong_def)
qed

text \<open>
  C7. For a Control-Change 94 message and a slot whose channel is the message's or
  which is Omni, the handler makes one \<open>SetMasterTune\<close> call for the slot: with 0 for
  the value 0, and with the rescaled value otherwise, which is -99 for 1, 99 for 127
  and \<open>-99 + floor((v - 1) * 198 / 126)\<close>, between -99 and 99, for every \<open>v\<close> from 1 to 127.
\<close>

theorem detune_master_tune:
  assumes "3 \<le> length m" and "drop_bit 4 (m ! 0) = 0xB" and "m ! 1 = 94"
    and "nTG < ToneGenerators e" and "wf_state e st"
    and "m_ChannelMap st ! nTG = m ! 0 AND 0x0F \<or> unat (m_ChannelMap st ! nTG) = OmniMode e"
  shows "(\<exists>st'. MIDIMessageHandler e m nCable st = Inr st' \<and>
            filter (is_master_tune_call nTG) (new_events st st') =
              [Synth (SetMasterTune
                 (if m ! 2 = 0 then 0 else maplong (uint (m ! 2)) 1 127 (- 99) 99) nTG)])
         \<and> maplong 1 1 127 (- 99) 99 = - 99 \<and> maplong 127 1 127 (- 99) 99 = 99
         \<and> (\<forall>v. 1 \<le> v \<and> v \<le> 127 \<longrightarrow>
               maplong v 1 127 (- 99) 99 = - 99 + (v - 1) * 198 div 126
               \<and> - 99 \<le> maplong v 1 127 (- 99) 99 \<and> maplong v 1 127 (- 99) 99 \<le> 99)"
proof -
  let ?x = "if m ! 2 = 0 then 0 else maplong (uint (m ! 2)) 1 127 (- 99) 99"
  let ?I = "\<lambda>s :: state. m_ChannelMap s = m_ChannelMap st"
  let ?evs = "\<lambda>(j :: nat) (s :: state).
       if m_ChannelMap s ! j = m ! 0 AND 0x0F \<or> unat (m_ChannelMap s ! j) = OmniMode e
       then [Synth (SetMasterTune ?x j)] else []"
  have "\<exists>xs. MIDIMessageHandler e m nCable st = Inr (st\<lparr>trace := trace st @ xs\<rparr>)
              \<and> filter (is_master_tune_call nTG) xs = [Synth (SetMasterTune ?x nTG)]"
  proof (rule MIDIMessageHandler_filter [where I = ?I and evs = ?evs and i = nTG])
    fix j s
    show "ProcessTG e m nCable (m ! 0) j s = Inr (s\<lparr>trace := trace s @ ?evs j s\<rparr>)"
      using assms(3) by (simp add: ProcessTG_ControlChange [OF assms(1,2)] ControlChange_detune)
  next
    fix j and s :: state
    assume "?I s"
    then show "filter (is_master_tune_call nTG) (?evs j s) =
        (if j = nTG then [Synth (SetMasterTune ?x nTG)] else [])"
      using assms(6) by auto
  qed (simp_all add: assms)
  then have a: "\<exists>st'. MIDIMessageHandler e m nCable st = Inr st' \<and>
            filter (is_master_tune_call nTG) (new_events st st') = [Synth (SetMasterTune ?x nTG)]"
    by (metis new_events_append)
  have b: "maplong 1 1 127 (- 99) 99 = - 99" "maplong 127 1 127 (- 99) 99 = 99"
    by (simp_all add: maplong_def)
  have c: "\<forall>v. 1 \<le> v \<and> v \<le> 127 \<longrightarrow>
               maplong v 1 127 (- 99) 99 = - 99 + (v - 1) * 198 div 126
               \<and> - 99 \<le> maplong v 1 127 (- 99) 99 \<and> maplong v 1 127 (- 99) 99 \<le> 99"
    using maplong_detune_range by (simp add: maplong_def)
  from a b c show ?thesis by blast
qed


theorem detune_master_tune_witness:
  "(\<exists>st'. MIDIMessageHandler example_env [0xB0, 94, 1] 1 example_state = Inr st' \<and>
      filter (is_master_tune_call 0) (new_events example_state st') =
        [Synth (SetMasterTune (- 99) 0)])
   \<and> (\<exists>st'. MIDIMessageHandler example_env [0xB0, 94, 0] 1 example_state = Inr st' \<and>
      filter (is_master_tune_call 1) (new_events example_state st') =
        [Synth (SetMasterTune 0 1)])"
proof -
  have a: "m_ChannelMap example_state ! 0 = [0xB0, 94, 1] ! 0 AND 0x0F
      \<or> unat (m_ChannelMap example_state ! 0) = OmniMode example_env"
    by (simp add: example_state_def)
  have b: "m_ChannelMap example_state ! 1 = [0xB0, 94, 0] ! 0 AND 0x0F
      \<or> unat (m_ChannelMap example_state ! 1) = OmniMode example_env"
    by (simp add: example_state_def example_env_def)
  have w: "wf_state example_env example_state"
    by (simp add: example_env_def example_state_def wf_state_def)
  from detune_master_tune [of "[0xB0, 94, 1]" 0 example_env example_state 1, OF _ _ _ _ w a]
    detune_master_tune [of "[0xB0, 94, 0]" 1 example_env example_state 1, OF _ _ _ _ w b]
  show ?thesis by (simp add: example_env_def maplong_def)
qed

subsection \<open>What can change the NRPN registers\<close>

lemma HandleSystemExclusive_fields:
  assumes "HandleSystemExclusive e m nCable nTG st = Inr st'"
  shows "m_NRPNop st' = m_NRPNop st \<and> m_NRPNoffset st' = m_NRPNoffset st
         \<and> m_ChannelMap st' = m_ChannelMap st"
  using assms
  by (auto simp: HandleSystemExclusive_def Let_def SendSystemExclusiveVoice_eq bind_res_def
      byte_at_def split: if_splits)

lemma NRPNDataLSB_fields [simp]:
  "m_NRPNop (NRPNDataLSB e v nTG st) = m_NRPNop st"
  "m_NRPNoffset (NRPNDataLSB e v nTG st) = m_NRPNoffset st"
  "m_ChannelMap (NRPNDataLSB e v nTG st) = m_ChannelMap st"
  by (simp_all add: NRPNDataLSB_def Let_def SendSystemExclusiveVoice_eq split: option.splits)

lemma ControlChange_fields:
  "m_NRPNop (ControlChange e cc v nTG st) =
     (if cc = 99 \<and> v \<le> 6 then (m_NRPNop st)[nTG := v] else m_NRPNop st)"
  "m_NRPNoffset (ControlChange e cc v nTG st) =
     (if cc = 98 then (m_NRPNoffset st)[nTG := v] else m_NRPNoffset st)"
  "m_ChannelMap (ControlChange e cc v nTG st) = m_ChannelMap st"
  by (simp_all add: ControlChange_def)

lemma ChannelMessage_fields:
  assumes "ChannelMessage e m ucType nTG st = Inr st'"
  shows "(m_NRPNop st' = m_NRPNop st
            \<or> (ucType = 0xB \<and> 3 \<le> length m \<and> m ! 1 = 99 \<and> m ! 2 \<le> 6))
         \<and> (m_NRPNoffset st' = m_NRPNoffset st \<or> (ucType = 0xB \<and> 3 \<le> length m \<and> m ! 1 = 98))
         \<and> m_ChannelMap st' = m_ChannelMap st"
  using assms
  by (auto simp: ChannelMessage_def ControlChange_fields bind_res_def byte_at_def
      split: if_splits)

lemma ProcessTG_fields:
  assumes "ProcessTG e m nCable ucStatus nTG st = Inr st'"
  shows "(m_NRPNop st' = m_NRPNop st
            \<or> (drop_bit 4 ucStatus = 0xB \<and> 3 \<le> length m \<and> m ! 1 = 99 \<and> m ! 2 \<le> 6))
         \<and> (m_NRPNoffset st' = m_NRPNoffset st
            \<or> (drop_bit 4 ucStatus = 0xB \<and> 3 \<le> length m \<and> m ! 1 = 98))
         \<and> m_ChannelMap st' = m_ChannelMap st"
proof (cases "ucStatus = 0xF0")
  case True
  with assms show ?thesis
    by (auto simp: ProcessTG_def bind_res_def byte_at_def split: if_splits
        dest: HandleSystemExclusive_fields)
next
  case False
  with assms show ?thesis
    by (auto simp: ProcessTG_def split: if_splits dest: ChannelMessage_fields)
qed

lemma PrePass_fields:
  assumes "PrePass e m ucStatus st = Inr st'"
  shows "m_NRPNop st' = m_NRPNop st \<and> m_NRPNoffset st' = m_NRPNoffset st
         \<and> m_ChannelMap st' = m_ChannelMap st"
  using assms
  by (auto simp: PrePass_def Let_def bind_res_def byte_at_def split: if_splits)

lemma ToneGeneratorLoop_invariant:
  assumes step: "\<And>nTG s s'. nTG < ToneGenerators e \<Longrightarrow> P s \<Longrightarrow>
            ProcessTG e m nCable ucStatus nTG s = Inr s' \<Longrightarrow> P s'"
  shows "P st \<Longrightarrow> ToneGeneratorLoop e m nCable ucStatus k st = Inr st' \<Longrightarrow> P st'"
proof (induction "ToneGenerators e - k" arbitrary: k st)
  case 0
  then show ?case by (subst (asm) ToneGeneratorLoop.simps) simp
next
  case (Suc d)
  then have lt: "k < ToneGenerators e" by linarith
  from Suc.prems(2) lt obtain s1 where b: "ProcessTG e m nCable ucStatus k st = Inr s1"
    and r: "ToneGeneratorLoop e m nCable ucStatus (Suc k) s1 = Inr st'"
    by (subst (asm) ToneGeneratorLoop.simps) (auto split: sum.splits)
  from lt Suc.prems(1) b have "P s1" by (rule step)
  moreover from Suc.hyps(2) have "d = ToneGenerators e - Suc k" by simp
  ultimately show ?case using r Suc.hyps(1) by blast
qed

lemma ToneGeneratorLoop_returns:
  assumes step: "\<And>nTG s. nTG < ToneGenerators e \<Longrightarrow>
            \<exists>s'. ProcessTG e m nCable ucStatus nTG s = Inr s'"
  shows "\<exists>st'. ToneGeneratorLoop e m nCable ucStatus k st = Inr st'"
proof (induction "ToneGenerators e - k" arbitrary: k st)
  case 0
  then show ?case by (subst ToneGeneratorLoop.simps) simp
next
  case (Suc d)
  then have lt: "k < ToneGenerators e" by linarith
  then obtain s1 where b: "ProcessTG e m nCable ucStatus k st = Inr s1" using step by blast
  from Suc.hyps(2) have "d = ToneGenerators e - Suc k" by simp
  then obtain st' where "ToneGeneratorLoop e m nCable ucStatus (Suc k) s1 = Inr st'"
    using Suc.hyps(1) by blast
  with b lt show ?case by (subst ToneGeneratorLoop.simps) simp
qed

lemma MIDIThru_fields [simp]:
  "m_NRPNop (MIDIThru e m nCable st) = m_NRPNop st"
  "m_NRPNoffset (MIDIThru e m nCable st) = m_NRPNoffset st"
  "m_ChannelMap (MIDIThru e m nCable st) = m_ChannelMap st"
  by (simp_all add: MIDIThru_def)

lemma MIDIMessageHandler_fields:
  assumes "MIDIMessageHandler e m nCable st = Inr st'"
  shows "(m_NRPNop st' = m_NRPNop st
            \<or> (drop_bit 4 (m ! 0) = 0xB \<and> 3 \<le> length m \<and> m ! 1 = 99 \<and> m ! 2 \<le> 6))
         \<and> (m_NRPNoffset st' = m_NRPNoffset st
            \<or> (drop_bit 4 (m ! 0) = 0xB \<and> 3 \<le> length m \<and> m ! 1 = 98))
         \<and> m_ChannelMap st' = m_ChannelMap st"
proof -
  let ?P = "\<lambda>s :: state. (m_NRPNop s = m_NRPNop st
            \<or> (drop_bit 4 (m ! 0) = 0xB \<and> 3 \<le> length m \<and> m ! 1 = 99 \<and> m ! 2 \<le> 6))
         \<and> (m_NRPNoffset s = m_NRPNoffset st
            \<or> (drop_bit 4 (m ! 0) = 0xB \<and> 3 \<le> length m \<and> m ! 1 = 98))
         \<and> m_ChannelMap s = m_ChannelMap st"
  show ?thesis
  proof (cases "length m < 2")
    case True
    with assms have "st' = MIDIThru e m nCable st"
      by (auto simp: MIDIMessageHandler_def Dispatch_def Let_def bind_res_def split: sum.splits)
    then show ?thesis by simp
  next
    case False
    then have l0: "0 < length m" by auto
    let ?s2 = "emit Acquire (MIDIThru e m nCable st)"
    from assms False l0 obtain mv st3 where
      mv: "is_master_volume m = Inr mv"
      and body: "(if mv
            then bind_res (byte_at m 5) (\<lambda>b5. bind_res (byte_at m 6) (\<lambda>b6.
                   Inr (emit (Synth (setMasterVolume (master_volume b5 b6))) ?s2)))
            else bind_res (PrePass e m (m ! 0) ?s2) (ToneGeneratorLoop e m nCable (m ! 0) 0))
          = Inr st3"
      and fin: "st' = emit Release st3"
      by (auto simp: MIDIMessageHandler_def Dispatch_def Let_def bind_res_def split: sum.splits)
    have "?P st3"
    proof (cases mv)
      case True
      with body show ?thesis
        by (auto simp: bind_res_def byte_at_def split: sum.splits if_splits)
    next
      case False
      with body obtain s0 where pp: "PrePass e m (m ! 0) ?s2 = Inr s0"
        and lp: "ToneGeneratorLoop e m nCable (m ! 0) 0 s0 = Inr st3"
        by (auto simp: bind_res_def split: sum.splits)
      from pp have p0: "?P s0" by (auto dest: PrePass_fields)
      have step: "\<And>nTG s s'. nTG < ToneGenerators e \<Longrightarrow> ?P s \<Longrightarrow>
            ProcessTG e m nCable (m ! 0) nTG s = Inr s' \<Longrightarrow> ?P s'"
        by (auto dest!: ProcessTG_fields)
      show ?thesis
        by (rule ToneGeneratorLoop_invariant [where P = ?P, OF step p0 lp])
    qed
    with fin show ?thesis by simp
  qed
qed

lemma MIDIMessageHandler_ControlChange_returns:
  assumes "3 \<le> length m" and "drop_bit 4 (m ! 0) = 0xB"
  shows "\<exists>st'. MIDIMessageHandler e m nCable st = Inr st'"
proof -
  from assms(2) have ns: "m ! 0 \<noteq> 0xF0" by auto
  let ?s0 = "emit (UIMIDICmdHandler (m ! 0 AND 0x0F) (m ! 0 AND 0xF0) (m ! 1) (m ! 2))
               (emit Acquire (MIDIThru e m nCable st))"
  have pp: "PrePass e m (m ! 0) (emit Acquire (MIDIThru e m nCable st)) = Inr ?s0"
    using assms by (simp add: PrePass_UI)
  have "\<exists>st'. ToneGeneratorLoop e m nCable (m ! 0) 0 ?s0 = Inr st'"
    by (rule ToneGeneratorLoop_returns) (simp add: ProcessTG_ControlChange [OF assms])
  then obtain s3 where "ToneGeneratorLoop e m nCable (m ! 0) 0 ?s0 = Inr s3" by blast
  moreover from assms(1) have "2 \<le> length m" by simp
  ultimately show ?thesis using ns pp by (simp add: MIDIMessageHandler_channel)
qed

text \<open>
  C8. A Control-Change 38 message of at least 3 bytes is handled to the end and leaves
  the stored groups and offsets of all slots as they were. Whatever the message, the
  handler changes a stored group only on a Control-Change 99 with a value of at most 6,
  and a stored offset only on a Control-Change 98; \<open>SetChannel\<close>, the SysEx decoder and
  the voice dump sender change neither.
\<close>

theorem NRPN_cursor_persists:
  "(3 \<le> length m \<and> drop_bit 4 (m ! 0) = 0xB \<and> m ! 1 = 38 \<longrightarrow>
      (\<exists>st'. MIDIMessageHandler e m nCable st = Inr st'
             \<and> m_NRPNop st' = m_NRPNop st \<and> m_NRPNoffset st' = m_NRPNoffset st))
   \<and> (\<forall>st'. MIDIMessageHandler e m nCable st = Inr st' \<longrightarrow>
        (m_NRPNop st' \<noteq> m_NRPNop st \<longrightarrow>
           drop_bit 4 (m ! 0) = 0xB \<and> 3 \<le> length m \<and> m ! 1 = 99 \<and> m ! 2 \<le> 6)
        \<and> (m_NRPNoffset st' \<noteq> m_NRPNoffset st \<longrightarrow>
           drop_bit 4 (m ! 0) = 0xB \<and> 3 \<le> length m \<and> m ! 1 = 98))
   \<and> (\<forall>st'. SetChannel e ucChannel nTG st = Inr st' \<longrightarrow>
        m_NRPNop st' = m_NRPNop st \<and> m_NRPNoffset st' = m_NRPNoffset st)
   \<and> (\<forall>st'. HandleSystemExclusive e m nCable tg st = Inr st' \<longrightarrow>
        m_NRPNop st' = m_NRPNop st \<and> m_NRPNoffset st' = m_NRPNoffset st)
   \<and> m_NRPNop (SendSystemExclusiveVoice e nVoice nCable tg st) = m_NRPNop st
   \<and> m_NRPNoffset (SendSystemExclusiveVoice e nVoice nCable tg st) = m_NRPNoffset st"
proof -
  have a: "3 \<le> length m \<and> drop_bit 4 (m ! 0) = 0xB \<and> m ! 1 = 38 \<longrightarrow>
      (\<exists>st'. MIDIMessageHandler e m nCable st = Inr st'
             \<and> m_NRPNop st' = m_NRPNop st \<and> m_NRPNoffset st' = m_NRPNoffset st)"
  proof
    assume h: "3 \<le> length m \<and> drop_bit 4 (m ! 0) = 0xB \<and> m ! 1 = 38"
    then obtain st' where r: "MIDIMessageHandler e m nCable st = Inr st'"
      using MIDIMessageHandler_ControlChange_returns by blast
    from MIDIMessageHandler_fields [OF r] h
    have "m_NRPNop st' = m_NRPNop st \<and> m_NRPNoffset st' = m_NRPNoffset st" by simp
    with r show "\<exists>st'. MIDIMessageHandler e m nCable st = Inr st'
             \<and> m_NRPNop st' = m_NRPNop st \<and> m_NRPNoffset st' = m_NRPNoffset st" by blast
  qed
  have b: "\<forall>st'. MIDIMessageHandler e m nCable st = Inr st' \<longrightarrow>
        (m_NRPNop st' \<noteq> m_NRPNop st \<longrightarrow>
           drop_bit 4 (m ! 0) = 0xB \<and> 3 \<le> length m \<and> m ! 1 = 99 \<and> m ! 2 \<le> 6)
        \<and> (m_NRPNoffset st' \<noteq> m_NRPNoffset st \<longrightarrow>
           drop_bit 4 (m ! 0) = 0xB \<and> 3 \<le> length m \<and> m ! 1 = 98)"
    using MIDIMessageHandler_fields by blast
  have c: "\<forall>st'. SetChannel e ucChannel nTG st = Inr st' \<longrightarrow>
        m_NRPNop st' = m_NRPNop st \<and> m_NRPNoffset st' = m_NRPNoffset st"
    by (auto simp: SetChannel_def split: if_splits)
  have d: "\<forall>st'. HandleSystemExclusive e m nCable tg st = Inr st' \<longrightarrow>
        m_NRPNop st' = m_NRPNop st \<and> m_NRPNoffset st' = m_NRPNoffset st"
    using HandleSystemExclusive_fields by blast
  have f: "m_NRPNop (SendSystemExclusiveVoice e nVoice nCable tg st) = m_NRPNop st"
    "m_NRPNoffset (SendSystemExclusiveVoice e nVoice nCable tg st) = m_NRPNoffset st"
    by (simp_all add: SendSystemExclusiveVoice_eq)
  from a b c d f show ?thesis by blast
qed

theorem NRPN_cursor_persists_witness:
  "\<exists>st'. MIDIMessageHandler example_env [0xB0, 38, 64] 1
           (example_state\<lparr>m_NRPNop := [2, 6], m_NRPNoffset := [16, 9]\<rparr>) = Inr st'
         \<and> m_NRPNop st' = [2, 6] \<and> m_NRPNoffset st' = [16, 9]"
  using NRPN_cursor_persists [of "[0xB0, 38, 64]" example_env 1
      "example_state\<lparr>m_NRPNop := [2, 6], m_NRPNoffset := [16, 9]\<rparr>"]
  by simp

subsection \<open>NRPN data commit\<close>

lemma unat_u8_less: "unat (v :: u8) < 256"
proof -
  have "unat v < 2 ^ LENGTH(8)" by (rule unsigned_less)
  then show ?thesis by simp
qed

lemma unat_ucast_u8_u32: "unat (ucast (v :: u8) :: 32 word) = unat v"
proof -
  have "unat v < 2 ^ 32" using unat_u8_less [of v] by simp
  then show ?thesis by (simp add: unsigned_ucast_eq take_bit_nat_eq_self)
qed

lemma unat_u8_product: "unat ((ucast (v :: u8) :: 32 word) * ucast (mx :: u8)) = unat v * unat mx"
proof -
  have "unat v * unat mx < 256 * 256"
    using unat_u8_less [of v] unat_u8_less [of mx] by (intro mult_strict_mono) simp_all
  then have "unat v * unat mx < 2 ^ 32" by simp
  then have "unat (ucast v :: 32 word) * unat (ucast mx :: 32 word) < 2 ^ LENGTH(32)"
    by (simp add: unat_ucast_u8_u32)
  then have "unat ((ucast v :: 32 word) * ucast mx) = unat (ucast v :: 32 word) * unat (ucast mx :: 32 word)"
    by (simp only: unat_mult_lem)
  then show ?thesis by (simp add: unat_ucast_u8_u32)
qed

lemma scale_rescale: "scale mx v = rescale (unat mx) v"
proof -
  have "unat (scale mx v) = unat (rescale (unat mx) v)"
    by (simp add: scale_def rescale_def unsigned_ucast_eq unat_of_nat unat_div unat_u8_product
        take_bit_eq_mod)
  then show ?thesis by (simp add: word_unat_eq_iff)
qed

lemma rescale_unat: "c \<le> 127 \<Longrightarrow> unat (rescale c d) = unat d * c div 127"
proof -
  assume c: "c \<le> 127"
  have "unat d \<le> 255" using unat_u8_less [of d] by simp
  then have "unat d * c \<le> 255 * 127" using c by (intro mult_mono) simp_all
  then have "unat d * c div 127 \<le> 255 * 127 div 127" by (rule div_le_mono)
  then have "unat d * c div 127 < 256" by simp
  then show ?thesis by (simp add: rescale_def unat_of_nat)
qed

lemma op_register_eq: "op_register p g d = op_setter p g (rescale (op_ceiling p) d)"
  by (cases p) (simp_all add: op_register_def op_setter_def op_ceiling_def scale_rescale)

lemma voice_register_eq: "voice_register p d = voice_setter p (rescale (voice_ceiling p) d)"
  by (cases p) (simp_all add: voice_register_def voice_setter_def voice_ceiling_def scale_rescale)

lemma ceilings_le: "op_ceiling p \<le> 127" "voice_ceiling q \<le> 127"
  by (simp_all add: op_ceiling_def voice_ceiling_def)

lemma NRPNDataLSB_eq:
  "NRPNDataLSB e d nTG st =
     st\<lparr>trace := trace st @
        commit_events e (m_NRPNop st ! nTG) (m_NRPNoffset st ! nTG) d nTG (trace st)
          (s_DeviceMap st)\<rparr>"
proof (cases "m_NRPNoffset st ! nTG = 21")
  case True
  then show ?thesis by (simp add: NRPNDataLSB_def commit_events_def emit_def)
next
  case n21: False
  consider (op) "m_NRPNop st ! nTG < 6" | (voice) "m_NRPNop st ! nTG = 6"
    | (none) "6 < m_NRPNop st ! nTG" by (rule linorder_cases)
  then show ?thesis
  proof cases
    case op
    then have "m_NRPNop st ! nTG \<noteq> 6" "m_NRPNop st ! nTG \<le> 6" by auto
    with op n21 show ?thesis
      by (simp add: NRPNDataLSB_def commit_events_def commit_calls_def register_call_def
          broadcast_def Let_def SendSystemExclusiveVoice_eq emit_def op_register_eq
          split: option.splits)
  next
    case voice
    with n21 show ?thesis
      by (simp add: NRPNDataLSB_def commit_events_def commit_calls_def register_call_def
          broadcast_def Let_def SendSystemExclusiveVoice_eq emit_def voice_register_eq
          split: option.splits)
  next
    case none
    then have "\<not> m_NRPNop st ! nTG < 6" "m_NRPNop st ! nTG \<noteq> 6" "\<not> m_NRPNop st ! nTG \<le> 6"
      by auto
    with n21 show ?thesis
      by (simp add: NRPNDataLSB_def commit_events_def Let_def)
  qed
qed

lemma is_TG_call_simps [simp]:
  "is_TG_call nTG (TG t call) \<longleftrightarrow> t = nTG"
  "\<not> is_TG_call nTG (Synth sc)"
  "\<not> is_TG_call nTG (Send name bs cb)"
  "\<not> is_TG_call nTG Acquire"
  "\<not> is_TG_call nTG Release"
  "\<not> is_TG_call nTG (UIMIDICmdHandler a b c d)"
  by (simp_all add: is_TG_call_def)

lemma filter_broadcast [simp]: "filter (is_TG_call i) (broadcast e hist t devices) = []"
  by (induction devices) (simp_all add: broadcast_def)

lemma filter_commit_calls:
  "filter (is_TG_call i) (commit_calls e g ofs d j) = (if j = i then commit_calls e g ofs d j else [])"
  by (simp add: commit_calls_def split: option.splits)

lemma filter_commit_events:
  "filter (is_TG_call i) (commit_events e g ofs d j hist devices) =
     (if j = i then commit_calls e g ofs d j else [])"
proof (cases "g \<le> 6")
  case True
  then show ?thesis by (simp add: commit_events_def filter_commit_calls) (simp add: commit_calls_def)
next
  case False
  then have "\<not> g < 6" "g \<noteq> 6" by auto
  with False show ?thesis by (simp add: commit_events_def commit_calls_def register_call_def)
qed

text \<open>
  C2, as amended. Let a slot match the channel of a Control-Change message of at least 3
  bytes (or be Omni), with stored group \<open>g\<close> at most 6 and stored offset \<open>ofs\<close>. On
  controller 38 with value \<open>d\<close>, the pass of the loop for that slot appends
  \<open>commit_events\<close>: for offset 21 a program change with \<open>d\<close> and nothing else; otherwise
  the setter of the register that \<open>(g, ofs)\<close> addresses, if it addresses one, with
  \<open>floor(d * ceiling / 127)\<close>, followed by one voice dump of 163 bytes to every
  registered device; and over the whole handling the calls on that slot's tone
  generator are that setter call or none. On controller 99 with a value above 6 the
  stored groups are unchanged.
\<close>

theorem NRPN_data_commit:
  assumes "3 \<le> length m" and "drop_bit 4 (m ! 0) = 0xB"
    and "nTG < ToneGenerators e" and "wf_state e st"
    and "m_ChannelMap st ! nTG = m ! 0 AND 0x0F \<or> unat (m_ChannelMap st ! nTG) = OmniMode e"
    and "g = m_NRPNop st ! nTG" and "ofs = m_NRPNoffset st ! nTG" and "g \<le> 6"
  shows "(m ! 1 = 38 \<longrightarrow>
            ProcessTG e m nCable (m ! 0) nTG st =
              Inr (st\<lparr>trace := trace st @
                     commit_events e g ofs (m ! 2) nTG (trace st) (s_DeviceMap st)\<rparr>)
            \<and> (\<exists>st'. MIDIMessageHandler e m nCable st = Inr st'
                  \<and> filter (is_TG_call nTG) (new_events st st') = commit_calls e g ofs (m ! 2) nTG))
         \<and> (m ! 1 = 99 \<and> 6 < m ! 2 \<longrightarrow>
              (\<exists>st'. MIDIMessageHandler e m nCable st = Inr st' \<and> m_NRPNop st' = m_NRPNop st))
         \<and> (\<forall>p. unat (rescale (op_ceiling p) (m ! 2)) = unat (m ! 2) * op_ceiling p div 127)
         \<and> (\<forall>q. unat (rescale (voice_ceiling q) (m ! 2)) = unat (m ! 2) * voice_ceiling q div 127)"
proof -
  have a: "m ! 1 = 38 \<longrightarrow>
            ProcessTG e m nCable (m ! 0) nTG st =
              Inr (st\<lparr>trace := trace st @
                     commit_events e g ofs (m ! 2) nTG (trace st) (s_DeviceMap st)\<rparr>)
            \<and> (\<exists>st'. MIDIMessageHandler e m nCable st = Inr st'
                  \<and> filter (is_TG_call nTG) (new_events st st') = commit_calls e g ofs (m ! 2) nTG)"
  proof
    assume cc: "m ! 1 = 38"
    have body: "ProcessTG e m nCable (m ! 0) j s =
        Inr (s\<lparr>trace := trace s @
          (if m_ChannelMap s ! j = m ! 0 AND 0x0F \<or> unat (m_ChannelMap s ! j) = OmniMode e
           then commit_events e (m_NRPNop s ! j) (m_NRPNoffset s ! j) (m ! 2) j (trace s)
                  (s_DeviceMap s)
           else [])\<rparr>)" for j s
      using cc
      by (simp add: ProcessTG_ControlChange [OF assms(1,2)] ControlChange_def NRPNDataLSB_eq)
    let ?I = "\<lambda>s :: state. m_ChannelMap s = m_ChannelMap st \<and> m_NRPNop s = m_NRPNop st
                \<and> m_NRPNoffset s = m_NRPNoffset st"
    let ?evs = "\<lambda>(j :: nat) (s :: state).
          if m_ChannelMap s ! j = m ! 0 AND 0x0F \<or> unat (m_ChannelMap s ! j) = OmniMode e
           then commit_events e (m_NRPNop s ! j) (m_NRPNoffset s ! j) (m ! 2) j (trace s)
                  (s_DeviceMap s)
           else []"
    have "\<exists>xs. MIDIMessageHandler e m nCable st = Inr (st\<lparr>trace := trace st @ xs\<rparr>)
              \<and> filter (is_TG_call nTG) xs = commit_calls e g ofs (m ! 2) nTG"
    proof (rule MIDIMessageHandler_filter [where I = ?I and evs = ?evs and i = nTG])
      fix j s
      show "ProcessTG e m nCable (m ! 0) j s = Inr (s\<lparr>trace := trace s @ ?evs j s\<rparr>)"
        by (rule body)
    next
      fix j and s :: state
      assume "?I s"
      then show "filter (is_TG_call nTG) (?evs j s) =
          (if j = nTG then commit_calls e g ofs (m ! 2) nTG else [])"
        using assms(5,6,7) by (simp add: filter_commit_events)
    qed (simp_all add: assms)
    then have "\<exists>st'. MIDIMessageHandler e m nCable st = Inr st'
                  \<and> filter (is_TG_call nTG) (new_events st st') = commit_calls e g ofs (m ! 2) nTG"
      by (metis new_events_append)
    moreover from body [of nTG st] assms(5,6,7)
    have "ProcessTG e m nCable (m ! 0) nTG st =
              Inr (st\<lparr>trace := trace st @
                     commit_events e g ofs (m ! 2) nTG (trace st) (s_DeviceMap st)\<rparr>)"
      by simp
    ultimately show "ProcessTG e m nCable (m ! 0) nTG st =
              Inr (st\<lparr>trace := trace st @
                     commit_events e g ofs (m ! 2) nTG (trace st) (s_DeviceMap st)\<rparr>)
            \<and> (\<exists>st'. MIDIMessageHandler e m nCable st = Inr st'
                  \<and> filter (is_TG_call nTG) (new_events st st') = commit_calls e g ofs (m ! 2) nTG)"
      by blast
  qed
  have b: "m ! 1 = 99 \<and> 6 < m ! 2 \<longrightarrow>
              (\<exists>st'. MIDIMessageHandler e m nCable st = Inr st' \<and> m_NRPNop st' = m_NRPNop st)"
  proof
    assume h: "m ! 1 = 99 \<and> 6 < m ! 2"
    from assms(1,2) obtain st' where r: "MIDIMessageHandler e m nCable st = Inr st'"
      using MIDIMessageHandler_ControlChange_returns by blast
    from h have "\<not> m ! 2 \<le> 6" by auto
    with MIDIMessageHandler_fields [OF r] have "m_NRPNop st' = m_NRPNop st" by blast
    with r show "\<exists>st'. MIDIMessageHandler e m nCable st = Inr st' \<and> m_NRPNop st' = m_NRPNop st"
      by blast
  qed
  have c: "\<forall>p. unat (rescale (op_ceiling p) (m ! 2)) = unat (m ! 2) * op_ceiling p div 127"
    "\<forall>q. unat (rescale (voice_ceiling q) (m ! 2)) = unat (m ! 2) * voice_ceiling q div 127"
    by (simp_all add: rescale_unat ceilings_le)
  from a b c show ?thesis by blast
qed

theorem NRPN_data_commit_witness:
  "ProcessTG example_env [0xB0, 38, 64] 1 0xB0 0
       (example_state\<lparr>m_NRPNop := [2, 6], m_NRPNoffset := [16, 9]\<rparr>) =
     Inr (example_state\<lparr>m_NRPNop := [2, 6], m_NRPNoffset := [16, 9],
            trace := [TG 0 (setOPOutputLevel 2 49),
                      Send ''in'' (map of_nat [0..<163]) None,
                      Send ''out'' (map of_nat [0..<163]) None]\<rparr>)
   \<and> (\<exists>st'. MIDIMessageHandler example_env [0xB0, 38, 64] 1
               (example_state\<lparr>m_NRPNop := [2, 6], m_NRPNoffset := [16, 9]\<rparr>) = Inr st'
          \<and> filter (is_TG_call 0)
               (new_events (example_state\<lparr>m_NRPNop := [2, 6], m_NRPNoffset := [16, 9]\<rparr>) st')
             = [TG 0 (setOPOutputLevel 2 49)])"
proof -
  let ?st = "example_state\<lparr>m_NRPNop := [2, 6], m_NRPNoffset := [16, 9]\<rparr>"
  have w: "wf_state example_env ?st"
    by (simp add: example_env_def example_state_def wf_state_def)
  have ch: "m_ChannelMap ?st ! 0 = [0xB0, 38, 64] ! 0 AND 0x0F
      \<or> unat (m_ChannelMap ?st ! 0) = OmniMode example_env"
    by (simp add: example_state_def)
  have g: "2 = m_NRPNop ?st ! 0" and ofs: "16 = m_NRPNoffset ?st ! 0" by simp_all
  have calls: "commit_calls example_env 2 16 64 0 = [TG 0 (setOPOutputLevel 2 49)]"
    by (simp add: commit_calls_def register_call_def example_env_def op_parameter_std_def
        op_setter_def op_ceiling_def rescale_def)
  from NRPN_data_commit [of "[0xB0, 38, 64]" 0 example_env ?st 2 16 1, OF _ _ _ w ch g ofs]
  show ?thesis
    by (simp add: calls commit_events_def broadcast_def)
       (simp add: example_env_def example_state_def)
qed

text \<open>
  C2, as stated, fails: with offset 21 stored, a data-LSB is a program change for each
  matching slot; no register setter is called and no voice dump is sent.
\<close>

theorem NRPN_data_commit_counterexample:
  "MIDIMessageHandler example_env [0xB0, 38, 64] 1
       (example_state\<lparr>m_DeviceName := ''other'', m_NRPNoffset := [21, 21]\<rparr>) =
     Inr (example_state\<lparr>m_DeviceName := ''other'', m_NRPNoffset := [21, 21],
            trace := [Acquire, UIMIDICmdHandler 0 0xB0 38 64, Synth (ProgramChange 64 0),
                      Synth (ProgramChange 64 1), Release]\<rparr>)
   \<and> filter (is_TG_call 0)
        [Acquire, UIMIDICmdHandler 0 0xB0 38 64, Synth (ProgramChange 64 0),
         Synth (ProgramChange 64 1), Release] = []"
  by (simp add: MIDIMessageHandler_def Dispatch_def MIDIDump_def MIDIThru_def
      is_master_volume_def PrePass_def
      ProcessTG_def ChannelMessage_def ControlChange_def NRPNDataLSB_def
      ToneGeneratorLoop.simps Let_def example_env_def example_state_def emit_def)

subsection \<open>MIDI Thru\<close>

lemma MIDIThru_forwards:
  "m_DeviceName st = GetMIDIThruIn e \<Longrightarrow> GetMIDIThruOut e \<in> set (s_DeviceMap st) \<Longrightarrow>
     MIDIThru e m nCable st = emit (Send (GetMIDIThruOut e) m (Some nCable)) st"
  by (simp add: MIDIThru_def)

lemma HandleSystemExclusive_trace:
  "HandleSystemExclusive e m nCable nTG st = Inr st' \<Longrightarrow> \<exists>xs. trace st' = trace st @ xs"
  by (auto simp: HandleSystemExclusive_def Let_def SendSystemExclusiveVoice_eq bind_res_def
      byte_at_def split: if_splits)

lemma ControlChange_trace: "\<exists>xs. trace (ControlChange e cc v nTG st) = trace st @ xs"
  by (simp add: ControlChange_def NRPNDataLSB_eq)

lemma ChannelMessage_trace:
  "ChannelMessage e m ucType nTG st = Inr st' \<Longrightarrow> \<exists>xs. trace st' = trace st @ xs"
  using ControlChange_trace [of e "m ! 1" "m ! 2" nTG st]
  by (auto simp: ChannelMessage_def bind_res_def byte_at_def split: if_splits)

lemma ProcessTG_trace:
  "ProcessTG e m nCable ucStatus nTG st = Inr st' \<Longrightarrow> \<exists>xs. trace st' = trace st @ xs"
  by (auto simp: ProcessTG_def bind_res_def byte_at_def split: if_splits
      dest: HandleSystemExclusive_trace ChannelMessage_trace)

lemma PrePass_trace:
  "PrePass e m ucStatus st = Inr st' \<Longrightarrow> \<exists>xs. trace st' = trace st @ xs"
  by (auto simp: PrePass_def Let_def bind_res_def byte_at_def split: if_splits)

lemma Dispatch_short: "length m < 2 \<Longrightarrow> Dispatch e m nCable st = Inr st"
  by (simp add: Dispatch_def)

lemma Dispatch_acquires_first:
  assumes "\<not> length m < 2" and ret: "Dispatch e m nCable st = Inr st'"
  shows "\<exists>xs. trace st' = trace st @ Acquire # xs"
proof -
  from assms(1) have l0: "0 < length m" by auto
  let ?s2 = "emit Acquire st"
  let ?P = "\<lambda>s :: state. \<exists>xs. trace s = trace ?s2 @ xs"
  from ret assms(1) l0 obtain mv st3 where
    body: "(if mv
          then bind_res (byte_at m 5) (\<lambda>b5. bind_res (byte_at m 6) (\<lambda>b6.
                 Inr (emit (Synth (setMasterVolume (master_volume b5 b6))) ?s2)))
          else bind_res (PrePass e m (m ! 0) ?s2) (ToneGeneratorLoop e m nCable (m ! 0) 0))
        = Inr st3"
    and fin: "st' = emit Release st3"
    by (auto simp: Dispatch_def Let_def bind_res_def split: sum.splits)
  have "?P st3"
  proof (cases mv)
    case True
    with body show ?thesis
      by (auto simp: bind_res_def byte_at_def split: sum.splits if_splits)
  next
    case False
    with body obtain s0 where pp: "PrePass e m (m ! 0) ?s2 = Inr s0"
      and lp: "ToneGeneratorLoop e m nCable (m ! 0) 0 s0 = Inr st3"
      by (auto simp: bind_res_def split: sum.splits)
    from pp have p0: "?P s0" by (rule PrePass_trace)
    have step: "\<And>nTG s s'. nTG < ToneGenerators e \<Longrightarrow> ?P s \<Longrightarrow>
          ProcessTG e m nCable (m ! 0) nTG s = Inr s' \<Longrightarrow> ?P s'"
      by (auto dest!: ProcessTG_trace)
    show ?thesis
      by (rule ToneGeneratorLoop_invariant [where P = ?P, OF step p0 lp])
  qed
  then obtain xs where "trace st3 = trace ?s2 @ xs" by blast
  with fin show ?thesis by simp
qed

text \<open>
  On the Thru-input device with the Thru-output device registered, and unless the
  dump block is never left, the handler is the rest of the handler run on the device
  with the forward of the whole buffer, on the cable of arrival, already in its
  trace: whatever the length gate, the lock and the dispatch then do, and also when
  they end in a read past the buffer, the forward has been made before them.
\<close>

lemma MIDIMessageHandler_thru_before_dispatch:
  assumes "m_DeviceName st = GetMIDIThruIn e" and "GetMIDIThruOut e \<in> set (s_DeviceMap st)"
    and "\<not> (GetMIDIDumpEnabled e \<and> 65536 \<le> length m \<and> m ! 0 = 0xF0)"
  shows "MIDIMessageHandler e m nCable st =
           Dispatch e m nCable (emit (Send (GetMIDIThruOut e) m (Some nCable)) st)"
proof -
  from assms(3) have "MIDIDump e m = Inr ()" by (auto simp: MIDIDump_eq)
  with assms(1,2) show ?thesis by (simp add: MIDIMessageHandler_def MIDIThru_forwards)
qed

lemma MIDIMessageHandler_short:
  assumes "m_DeviceName st = GetMIDIThruIn e" and "GetMIDIThruOut e \<in> set (s_DeviceMap st)"
    and "length m < 2"
  shows "MIDIMessageHandler e m nCable st =
           Inr (emit (Send (GetMIDIThruOut e) m (Some nCable)) st)"
proof -
  from assms(3) have "\<not> (GetMIDIDumpEnabled e \<and> 65536 \<le> length m \<and> m ! 0 = 0xF0)" by simp
  with assms show ?thesis
    by (simp add: MIDIMessageHandler_thru_before_dispatch Dispatch_short)
qed

lemma MIDIMessageHandler_thru_first:
  assumes thru: "m_DeviceName st = GetMIDIThruIn e" "GetMIDIThruOut e \<in> set (s_DeviceMap st)"
    and ret: "MIDIMessageHandler e m nCable st = Inr st'"
  shows "if length m < 2
         then trace st' = trace st @ [Send (GetMIDIThruOut e) m (Some nCable)]
         else \<exists>xs. trace st' = trace st @ Send (GetMIDIThruOut e) m (Some nCable) # Acquire # xs"
proof -
  from ret have nl: "\<not> (GetMIDIDumpEnabled e \<and> 65536 \<le> length m \<and> m ! 0 = 0xF0)"
    by (auto simp: MIDIMessageHandler_def MIDIDump_eq)
  let ?s1 = "emit (Send (GetMIDIThruOut e) m (Some nCable)) st"
  from thru nl ret have d: "Dispatch e m nCable ?s1 = Inr st'"
    by (simp add: MIDIMessageHandler_thru_before_dispatch)
  show ?thesis
  proof (cases "length m < 2")
    case True
    with d show ?thesis by (auto simp: Dispatch_short)
  next
    case False
    from Dispatch_acquires_first [OF False d] False show ?thesis by simp
  qed
qed


end
